theory Spec2Isabelle
  imports
    Complex_Main
    "HOL-Library.Word"
    "HOL-Library.Product_Lexorder"
    "HOL-Library.Multiset"
    "HOL-Library.AList"
begin

section \<open>Render list (WebGLRenderList)\<close>

text \<open>
  JavaScript numbers are modelled as \<open>real\<close> (depth, render order) or \<open>int\<close>
  (object and material ids); NaN and the infinities are outside the model.
  A property that may be absent from an object (\<open>undefined\<close>) is an \<open>option\<close>.
\<close>

record material =
  material_id :: int
  material_visible :: bool
  transparent :: bool
  transmission :: "real option"

record geometry_group =
  group_start :: nat
  group_count :: nat
  materialIndex :: nat

record render_item =
  item_id :: int
  item_object :: nat
  item_geometry :: nat
  item_material :: material
  groupOrder :: real
  renderOrder :: real
  z :: real
  item_group :: "geometry_group option"

text \<open>The part of a scene object that the render list reads: a reference to the
  object, \<open>object.id\<close> and \<open>object.renderOrder\<close>.\<close>

record object_ref =
  object_handle :: nat
  object_id :: int
  object_renderOrder :: real

record render_list =
  renderItems :: "render_item list"
  renderItemsIndex :: nat
  opaque :: "render_item list"
  transmissive :: "render_item list"
  transparent_list :: "render_item list"

text \<open>\<open>painterSortStable\<close> and \<open>reversePainterSortStable\<close>: the comparators return
  the difference of the first key on which the two items differ.\<close>

definition painterSortStable :: "render_item \<Rightarrow> render_item \<Rightarrow> real" where
  "painterSortStable a b =
     (if groupOrder a \<noteq> groupOrder b then groupOrder a - groupOrder b
      else if renderOrder a \<noteq> renderOrder b then renderOrder a - renderOrder b
      else if material_id (item_material a) \<noteq> material_id (item_material b)
        then real_of_int (material_id (item_material a) - material_id (item_material b))
      else if z a \<noteq> z b then z a - z b
      else real_of_int (item_id a - item_id b))"

definition reversePainterSortStable :: "render_item \<Rightarrow> render_item \<Rightarrow> real" where
  "reversePainterSortStable a b =
     (if groupOrder a \<noteq> groupOrder b then groupOrder a - groupOrder b
      else if renderOrder a \<noteq> renderOrder b then renderOrder a - renderOrder b
      else if z a \<noteq> z b then z b - z a
      else real_of_int (item_id a - item_id b))"

text \<open>\<open>Array.prototype.sort(compareFn)\<close> is the host's stable sort: an element goes
  before another when the comparator is negative, and elements the comparator
  does not separate keep their order. It is modelled by a stable insertion sort.\<close>

fun array_insert :: "('a \<Rightarrow> 'a \<Rightarrow> real) \<Rightarrow> 'a \<Rightarrow> 'a list \<Rightarrow> 'a list" where
  "array_insert cmp x [] = [x]"
| "array_insert cmp x (y # ys) =
     (if cmp x y \<le> 0 then x # y # ys else y # array_insert cmp x ys)"

definition array_sort :: "('a \<Rightarrow> 'a \<Rightarrow> real) \<Rightarrow> 'a list \<Rightarrow> 'a list" where
  "array_sort cmp xs = foldr (array_insert cmp) xs []"

definition init :: "render_list \<Rightarrow> render_list" where
  "init rl = rl\<lparr>renderItemsIndex := 0, opaque := [], transmissive := [],
     transparent_list := []\<rparr>"

definition empty_render_list :: render_list where
  "empty_render_list = \<lparr>renderItems = [], renderItemsIndex = 0, opaque = [],
     transmissive = [], transparent_list = []\<rparr>"

text \<open>\<open>getNextRenderItem\<close>: the pool entry at the fill pointer is overwritten, or
  created when the pool has none there; the fill pointer advances.\<close>

definition getNextRenderItem ::
  "object_ref \<Rightarrow> nat \<Rightarrow> material \<Rightarrow> real \<Rightarrow> real \<Rightarrow> geometry_group option
     \<Rightarrow> render_list \<Rightarrow> render_item \<times> render_list" where
  "getNextRenderItem object geometry mat grpOrder depth grp rl =
     (let renderItem = \<lparr>item_id = object_id object, item_object = object_handle object,
            item_geometry = geometry, item_material = mat, groupOrder = grpOrder,
            renderOrder = object_renderOrder object, z = depth, item_group = grp\<rparr>;
          i = renderItemsIndex rl;
          pool = (if i < length (renderItems rl) then (renderItems rl)[i := renderItem]
                  else renderItems rl @ [renderItem])
      in (renderItem, rl\<lparr>renderItems := pool, renderItemsIndex := i + 1\<rparr>))"

text \<open>\<open>material.transmission > 0.0\<close>; the comparison is false when the material
  has no such property.\<close>

definition transmission_positive :: "material \<Rightarrow> bool" where
  "transmission_positive mat = (case transmission mat of None \<Rightarrow> False | Some t \<Rightarrow> 0 < t)"

definition push ::
  "object_ref \<Rightarrow> nat \<Rightarrow> material \<Rightarrow> real \<Rightarrow> real \<Rightarrow> geometry_group option
     \<Rightarrow> render_list \<Rightarrow> render_list" where
  "push object geometry mat grpOrder depth grp rl =
     (case getNextRenderItem object geometry mat grpOrder depth grp rl of
        (renderItem, rl') \<Rightarrow>
          if transmission_positive mat
            then rl'\<lparr>transmissive := transmissive rl' @ [renderItem]\<rparr>
          else if transparent mat
            then rl'\<lparr>transparent_list := transparent_list rl' @ [renderItem]\<rparr>
          else rl'\<lparr>opaque := opaque rl' @ [renderItem]\<rparr>)"

text \<open>\<open>sort(customOpaqueSort, customTransparentSort)\<close>; an absent custom comparator
  is \<open>None\<close> and the default one is used.\<close>

definition sort_lists ::
  "(render_item \<Rightarrow> render_item \<Rightarrow> real) option
     \<Rightarrow> (render_item \<Rightarrow> render_item \<Rightarrow> real) option \<Rightarrow> render_list \<Rightarrow> render_list" where
  "sort_lists customOpaqueSort customTransparentSort rl =
     (let opaqueCmp = (case customOpaqueSort of Some f \<Rightarrow> f | None \<Rightarrow> painterSortStable);
          transparentCmp =
            (case customTransparentSort of Some f \<Rightarrow> f | None \<Rightarrow> reversePainterSortStable)
      in rl\<lparr>opaque := (if length (opaque rl) > 1 then array_sort opaqueCmp (opaque rl)
                        else opaque rl),
            transmissive := (if length (transmissive rl) > 1
                             then array_sort transparentCmp (transmissive rl)
                             else transmissive rl),
            transparent_list := (if length (transparent_list rl) > 1
                             then array_sort transparentCmp (transparent_list rl)
                             else transparent_list rl)\<rparr>)"

text \<open>The orders the specification names, as sort keys under the lexicographic
  order on tuples.\<close>

definition opaque_key :: "render_item \<Rightarrow> real \<times> real \<times> int \<times> real \<times> int" where
  "opaque_key a =
     (groupOrder a, renderOrder a, material_id (item_material a), z a, item_id a)"

definition transparent_key :: "render_item \<Rightarrow> real \<times> real \<times> real \<times> int" where
  "transparent_key a = (groupOrder a, renderOrder a, - z a, item_id a)"

text \<open>Concrete inputs used to exercise the render list.\<close>

definition glass :: material where
  "glass = \<lparr>material_id = 7, material_visible = True, transparent = True,
     transmission = Some (1 / 2)\<rparr>"

definition cube :: object_ref where
  "cube = \<lparr>object_handle = 3, object_id = 12, object_renderOrder = 0\<rparr>"

subsection \<open>Program cache (WebGLPrograms, WebGLProgram)\<close>







text \<open>\<open>programs.indexOf(program)\<close>, with JavaScript's \<open>-1\<close> for an absent element.\<close>

fun indexOf :: "nat list \<Rightarrow> nat \<Rightarrow> int" where
  "indexOf [] r = - 1"
| "indexOf (x # xs) r =
     (if x = r then 0 else (let i = indexOf xs r in if i < 0 then - 1 else i + 1))"












subsection \<open>Buffer attribute cache (WebGLAttributes)\<close>

datatype array_type =
  Float32Array | Uint16Array | Int16Array | Uint32Array | Int32Array
  | Int8Array | Uint8Array | Uint8ClampedArray | Float64Array

datatype gl_type =
  GL_FLOAT | GL_HALF_FLOAT | GL_UNSIGNED_SHORT | GL_SHORT | GL_UNSIGNED_INT | GL_INT | GL_BYTE | GL_UNSIGNED_BYTE

fun BYTES_PER_ELEMENT :: "array_type \<Rightarrow> nat" where
  "BYTES_PER_ELEMENT Float32Array = 4"
| "BYTES_PER_ELEMENT Uint16Array = 2"
| "BYTES_PER_ELEMENT Int16Array = 2"
| "BYTES_PER_ELEMENT Uint32Array = 4"
| "BYTES_PER_ELEMENT Int32Array = 4"
| "BYTES_PER_ELEMENT Int8Array = 1"
| "BYTES_PER_ELEMENT Uint8Array = 1"
| "BYTES_PER_ELEMENT Uint8ClampedArray = 1"
| "BYTES_PER_ELEMENT Float64Array = 8"

text \<open>A typed array: its class, its \<open>byteLength\<close> and its elements.\<close>

record typed_array =
  array_type :: array_type
  byteLength :: nat
  elements :: "int list"

text \<open>An entry of \<open>updateRanges\<close> (\<open>start\<close>, \<open>count\<close>) or the deprecated
  \<open>_updateRange\<close> (\<open>offset\<close>, \<open>count\<close>, with \<open>count = -1\<close> for none).\<close>

record update_range =
  range_start :: nat
  range_count :: int

text \<open>A BufferAttribute or an InterleavedBuffer; \<open>attr_ref\<close> is the identity of
  the object, the key of the WeakMap.\<close>

record buffer_attribute =
  attr_ref :: nat
  array :: typed_array
  usage :: nat
  version :: nat
  isFloat16BufferAttribute :: bool
  updateRange :: update_range
  updateRanges :: "update_range list"

record gl_buffer_attribute =
  glattr_ref :: nat
  glattr_buffer :: nat
  glattr_type :: gl_type
  elementSize :: nat
  glattr_version :: nat

text \<open>The argument of \<open>get\<close>, \<open>remove\<close> and \<open>update\<close>: an interleaved buffer
  attribute stands for its \<open>data\<close>, an InterleavedBuffer.\<close>

datatype attribute =
  BufferAttribute buffer_attribute
  | InterleavedBufferAttribute buffer_attribute
  | GLBufferAttribute gl_buffer_attribute

text \<open>The cached record; \<open>cached_size\<close> is absent from the records that \<open>update\<close>
  stores for a GLBufferAttribute.\<close>

record cached_buffer =
  buffer :: nat
  cached_type :: gl_type
  bytesPerElement :: nat
  cached_version :: nat
  cached_size :: "nat option"

text \<open>The calls the cache makes on the graphics context and on the attribute,
  in the order in which they are made.\<close>

datatype buffer_call =
  CreateBuffer nat
  | BindBuffer nat nat
  | BufferData nat typed_array nat
  | BufferSubData nat nat typed_array "(nat \<times> int) option"
  | DeleteBuffer nat
  | OnUploadCallback nat

record attributes_state =
  buffers :: "nat \<Rightarrow> cached_buffer option"
  buffer_calls :: "buffer_call list"
  buffers_created :: nat

datatype attributes_error = UnsupportedBufferDataFormat | ResizeNotSupported

definition gl_call :: "buffer_call \<Rightarrow> attributes_state \<Rightarrow> attributes_state" where
  "gl_call c s = s\<lparr>buffer_calls := buffer_calls s @ [c]\<rparr>"

text \<open>The chain of \<open>instanceof\<close> tests of \<open>createBuffer\<close>; \<open>None\<close> is the branch
  that throws.\<close>

fun buffer_gl_type :: "array_type \<Rightarrow> bool \<Rightarrow> gl_type option" where
  "buffer_gl_type Float32Array f16 = Some GL_FLOAT"
| "buffer_gl_type Uint16Array f16 = Some (if f16 then GL_HALF_FLOAT else GL_UNSIGNED_SHORT)"
| "buffer_gl_type Int16Array f16 = Some GL_SHORT"
| "buffer_gl_type Uint32Array f16 = Some GL_UNSIGNED_INT"
| "buffer_gl_type Int32Array f16 = Some GL_INT"
| "buffer_gl_type Int8Array f16 = Some GL_BYTE"
| "buffer_gl_type Uint8Array f16 = Some GL_UNSIGNED_BYTE"
| "buffer_gl_type Uint8ClampedArray f16 = Some GL_UNSIGNED_BYTE"
| "buffer_gl_type Float64Array f16 = None"

text \<open>\<open>createBuffer\<close>: the buffer is created and filled before the array's class
  is looked at, so the calls are made also when the function throws.\<close>

definition createBuffer ::
  "buffer_attribute \<Rightarrow> nat \<Rightarrow> attributes_state
     \<Rightarrow> (attributes_error + cached_buffer) \<times> attributes_state" where
  "createBuffer attribute bufferType s =
     (let arr = array attribute;
          sz = byteLength arr;
          b = buffers_created s;
          s1 = gl_call (CreateBuffer b) (s\<lparr>buffers_created := b + 1\<rparr>);
          s2 = gl_call (BindBuffer bufferType b) s1;
          s3 = gl_call (BufferData bufferType arr (usage attribute)) s2;
          s4 = gl_call (OnUploadCallback (attr_ref attribute)) s3
      in case buffer_gl_type (array_type arr) (isFloat16BufferAttribute attribute) of
           None \<Rightarrow> (Inl UnsupportedBufferDataFormat, s4)
         | Some t \<Rightarrow>
             (Inr \<lparr>buffer = b, cached_type = t,
                   bytesPerElement = BYTES_PER_ELEMENT (array_type arr),
                   cached_version = version attribute, cached_size = Some sz\<rparr>, s4))"

text \<open>The loop of \<open>updateBuffer\<close> over \<open>updateRanges\<close>.\<close>

fun upload_ranges ::
  "nat \<Rightarrow> typed_array \<Rightarrow> update_range list \<Rightarrow> attributes_state \<Rightarrow> attributes_state" where
  "upload_ranges bufferType arr [] s = s"
| "upload_ranges bufferType arr (r # rs) s =
     upload_ranges bufferType arr rs
       (gl_call (BufferSubData bufferType
                   (range_start r * BYTES_PER_ELEMENT (array_type arr)) arr
                   (Some (range_start r, range_count r))) s)"

text \<open>\<open>updateBuffer\<close> also clears the attribute's update ranges, so the attribute
  is returned with the state.\<close>

definition updateBuffer ::
  "nat \<Rightarrow> buffer_attribute \<Rightarrow> nat \<Rightarrow> attributes_state
     \<Rightarrow> buffer_attribute \<times> attributes_state" where
  "updateBuffer b attribute bufferType s =
     (let arr = array attribute;
          rng = updateRange attribute;
          rngs = updateRanges attribute;
          s1 = gl_call (BindBuffer bufferType b) s;
          s2 = (if range_count rng = - 1 \<and> length rngs = 0
                then gl_call (BufferSubData bufferType 0 arr None) s1 else s1);
          s3 = (if length rngs \<noteq> 0 then upload_ranges bufferType arr rngs s2 else s2);
          a3 = (if length rngs \<noteq> 0 then attribute\<lparr>updateRanges := []\<rparr> else attribute);
          s4 = (if range_count rng \<noteq> - 1
                then gl_call (BufferSubData bufferType
                       (range_start rng * BYTES_PER_ELEMENT (array_type arr)) arr
                       (Some (range_start rng, range_count rng))) s3
                else s3);
          a4 = (if range_count rng \<noteq> - 1
                then a3\<lparr>updateRange := rng\<lparr>range_count := - 1\<rparr>\<rparr> else a3)
      in (a4, gl_call (OnUploadCallback (attr_ref attribute)) s4))"

definition attributes_get :: "attribute \<Rightarrow> attributes_state \<Rightarrow> cached_buffer option" where
  "attributes_get attribute s =
     (case attribute of
        BufferAttribute a \<Rightarrow> buffers s (attr_ref a)
      | InterleavedBufferAttribute d \<Rightarrow> buffers s (attr_ref d)
      | GLBufferAttribute g \<Rightarrow> buffers s (glattr_ref g))"

definition attributes_remove :: "attribute \<Rightarrow> attributes_state \<Rightarrow> attributes_state" where
  "attributes_remove attribute s =
     (let k = (case attribute of
                 BufferAttribute a \<Rightarrow> attr_ref a
               | InterleavedBufferAttribute d \<Rightarrow> attr_ref d
               | GLBufferAttribute g \<Rightarrow> glattr_ref g)
      in case buffers s k of
           None \<Rightarrow> s
         | Some d \<Rightarrow> (gl_call (DeleteBuffer (buffer d)) s)\<lparr>buffers := (buffers s)(k := None)\<rparr>)"

text \<open>The part of \<open>update\<close> after the attribute has been replaced by its data.\<close>

definition update_data ::
  "buffer_attribute \<Rightarrow> nat \<Rightarrow> attributes_state
     \<Rightarrow> attributes_error option \<times> buffer_attribute \<times> attributes_state" where
  "update_data attribute bufferType s =
     (case buffers s (attr_ref attribute) of
        None \<Rightarrow>
          (case createBuffer attribute bufferType s of
             (Inl e, s') \<Rightarrow> (Some e, attribute, s')
           | (Inr d, s') \<Rightarrow>
               (None, attribute, s'\<lparr>buffers := (buffers s')(attr_ref attribute \<mapsto> d)\<rparr>))
      | Some d \<Rightarrow>
          if cached_version d < version attribute then
            if cached_size d \<noteq> Some (byteLength (array attribute))
            then (Some ResizeNotSupported, attribute, s)
            else (case updateBuffer (buffer d) attribute bufferType s of
                    (attribute', s') \<Rightarrow>
                      (None, attribute',
                       s'\<lparr>buffers := (buffers s')(attr_ref attribute \<mapsto>
                                         d\<lparr>cached_version := version attribute\<rparr>)\<rparr>))
          else (None, attribute, s))"

text \<open>\<open>update(attribute, bufferType)\<close>: the error that is thrown, if any, the
  attribute as the call leaves it, and the state of the cache.\<close>

definition attributes_update ::
  "attribute \<Rightarrow> nat \<Rightarrow> attributes_state
     \<Rightarrow> attributes_error option \<times> attribute \<times> attributes_state" where
  "attributes_update attribute bufferType s =
     (case attribute of
        GLBufferAttribute g \<Rightarrow>
          (None, attribute,
           if (case buffers s (glattr_ref g) of
                 None \<Rightarrow> True | Some c \<Rightarrow> cached_version c < glattr_version g)
           then s\<lparr>buffers := (buffers s)(glattr_ref g \<mapsto>
                    \<lparr>buffer = glattr_buffer g, cached_type = glattr_type g,
                     bytesPerElement = elementSize g, cached_version = glattr_version g,
                     cached_size = None\<rparr>)\<rparr>
           else s)
      | InterleavedBufferAttribute d \<Rightarrow>
          (case update_data d bufferType s of
             (e, d', s') \<Rightarrow> (e, InterleavedBufferAttribute d', s'))
      | BufferAttribute a \<Rightarrow>
          (case update_data a bufferType s of
             (e, a', s') \<Rightarrow> (e, BufferAttribute a', s')))"

text \<open>The uploads among the calls: \<open>gl.bufferData\<close> and \<open>gl.bufferSubData\<close>.\<close>

fun is_upload :: "buffer_call \<Rightarrow> bool" where
  "is_upload (BufferData _ _ _) = True"
| "is_upload (BufferSubData _ _ _ _) = True"
| "is_upload _ = False"

definition uploads :: "attributes_state \<Rightarrow> nat" where
  "uploads s = length (filter is_upload (buffer_calls s))"

fun is_allocation :: "buffer_call \<Rightarrow> bool" where
  "is_allocation (CreateBuffer _) = True"
| "is_allocation (BufferData _ _ _) = True"
| "is_allocation (DeleteBuffer _) = True"
| "is_allocation _ = False"

text \<open>\<open>update\<close> called \<open>n\<close> times in a row on the same attribute.\<close>

fun update_times ::
  "nat \<Rightarrow> attribute \<Rightarrow> nat \<Rightarrow> attributes_state
     \<Rightarrow> attributes_error option \<times> attribute \<times> attributes_state" where
  "update_times 0 attribute bufferType s = (None, attribute, s)"
| "update_times (Suc n) attribute bufferType s =
     (case attributes_update attribute bufferType s of
        (Some e, attribute', s') \<Rightarrow> (Some e, attribute', s')
      | (None, attribute', s') \<Rightarrow> update_times n attribute' bufferType s')"


definition attribute_version :: "attribute \<Rightarrow> nat" where
  "attribute_version attribute =
     (case attribute of
        BufferAttribute a \<Rightarrow> version a
      | InterleavedBufferAttribute d \<Rightarrow> version d
      | GLBufferAttribute g \<Rightarrow> glattr_version g)"


definition attribute_gl_type :: "attribute \<Rightarrow> gl_type option" where
  "attribute_gl_type attribute =
     (case attribute of
        BufferAttribute a \<Rightarrow> buffer_gl_type (array_type (array a)) (isFloat16BufferAttribute a)
      | InterleavedBufferAttribute d \<Rightarrow>
          buffer_gl_type (array_type (array d)) (isFloat16BufferAttribute d)
      | GLBufferAttribute g \<Rightarrow> Some (glattr_type g))"

definition isGLBufferAttribute :: "attribute \<Rightarrow> bool" where
  "isGLBufferAttribute attribute =
     (case attribute of GLBufferAttribute g \<Rightarrow> True | _ \<Rightarrow> False)"

definition empty_attributes :: attributes_state where
  "empty_attributes = \<lparr>buffers = (\<lambda>_. None), buffer_calls = [], buffers_created = 0\<rparr>"




text \<open>A position attribute of three vertices, uploaded once, and the record
  the cache then holds for it.\<close>

definition positions :: buffer_attribute where
  "positions = \<lparr>attr_ref = 1,
     array = \<lparr>array_type = Float32Array, byteLength = 36, elements = [0, 0, 0, 1, 0, 0, 0, 1, 0]\<rparr>,
     usage = 35044, version = 1, isFloat16BufferAttribute = False,
     updateRange = \<lparr>range_start = 0, range_count = - 1\<rparr>, updateRanges = []\<rparr>"


definition positions_uploaded :: attributes_state where
  "positions_uploaded =
     snd (snd (attributes_update (BufferAttribute positions) 34962 empty_attributes))"



text \<open>An attribute over a Float64Array of three elements, and the cache after
  one update of it and after two.\<close>

definition doubles :: buffer_attribute where
  "doubles = \<lparr>attr_ref = 2,
     array = \<lparr>array_type = Float64Array, byteLength = 24, elements = [0, 1, 2]\<rparr>,
     usage = 35044, version = 1, isFloat16BufferAttribute = False,
     updateRange = \<lparr>range_start = 0, range_count = - 1\<rparr>, updateRanges = []\<rparr>"

definition doubles_once :: attributes_state where
  "doubles_once =
     snd (snd (attributes_update (BufferAttribute doubles) 34962 empty_attributes))"

definition doubles_twice :: attributes_state where
  "doubles_twice = snd (snd (attributes_update (BufferAttribute doubles) 34962 doubles_once))"


subsection \<open>State tracker (WebGLState)\<close>

text \<open>A value that a JavaScript variable or an omitted argument may hold where
  the source tells \<open>null\<close> from \<open>undefined\<close>.\<close>

datatype 'a js = JsNull | JsUndefined | JsVal 'a


definition gl_SCISSOR_TEST :: nat where "gl_SCISSOR_TEST = 3089"
definition gl_FRAMEBUFFER :: nat where "gl_FRAMEBUFFER = 36160"
definition gl_READ_FRAMEBUFFER :: nat where "gl_READ_FRAMEBUFFER = 36008"
definition gl_DRAW_FRAMEBUFFER :: nat where "gl_DRAW_FRAMEBUFFER = 36009"
definition gl_BACK :: nat where "gl_BACK = 1029"

definition LessEqualDepth :: nat where "LessEqualDepth = 3"



text \<open>A Vector4 with components \<open>x\<close>, \<open>y\<close>, \<open>z\<close> (width) and \<open>w\<close> (height).\<close>

record vector4 =
  vx :: real
  vy :: real
  vz :: real
  vw :: real

datatype gl_call =
  GlEnable nat
  | GlDisable nat
  | GlBindFramebuffer nat "nat js"
  | GlUseProgram "nat option"
  | GlColorMask bool
  | GlDepthMask bool
  | GlDepthFunc nat
  | GlClearDepth real
  | GlStencilMask nat
  | GlStencilFunc nat nat nat
  | GlStencilOp nat nat nat
  | GlClearStencil nat
  | GlBlendEquation nat
  | GlBlendEquationSeparate "nat option" "nat option"
  | GlBlendFunc nat nat
  | GlBlendFuncSeparate "nat option" "nat option" "nat option" "nat option"
  | GlBlendColor real real real "real js"
  | GlFrontFace nat
  | GlCullFace nat
  | GlViewport vector4
  | GlScissor vector4
  | GlDrawBuffers "nat list"
  | GlFramebufferTexture2D nat nat nat "nat option" nat
  | GlFramebufferTextureLayer nat nat "nat option" nat nat
  | ConsoleError nat

text \<open>The variables of the closures \<open>ColorBuffer\<close>, \<open>DepthBuffer\<close> and
  \<open>StencilBuffer\<close>; \<open>None\<close> is \<open>null\<close>.\<close>

record color_buffer =
  color_locked :: bool
  currentColorMask :: "bool option"

record depth_buffer =
  depth_locked :: bool
  currentDepthMask :: "bool option"
  currentDepthFunc :: "nat option"
  currentDepthClear :: "real option"

record stencil_buffer =
  stencil_locked :: bool
  currentStencilMask :: "nat option"
  currentStencilFunc :: "nat option"
  currentStencilRef :: "nat option"
  currentStencilFuncMask :: "nat option"
  currentStencilFail :: "nat option"
  currentStencilZFail :: "nat option"
  currentStencilZPass :: "nat option"
  currentStencilClear :: "nat option"

record blend_state =
  currentBlendingEnabled :: bool
  currentBlending :: "nat option"
  currentBlendEquation :: "nat js"
  currentBlendSrc :: "nat js"
  currentBlendDst :: "nat js"
  currentBlendEquationAlpha :: "nat js"
  currentBlendSrcAlpha :: "nat js"
  currentBlendDstAlpha :: "nat js"
  currentBlendColor :: "real \<times> real \<times> real"
  currentBlendAlpha :: "real js"
  currentPremultipledAlpha :: "bool option"

text \<open>The mirrored snapshot, with the calls issued on the graphics context.
  \<open>enabledCapabilities\<close> and \<open>currentBoundFramebuffers\<close> are objects used as
  dictionaries. A capability without a key is \<open>None\<close>. A framebuffer is a
  handle, \<open>null\<close> or \<open>undefined\<close>, and a target without a key reads as
  \<open>undefined\<close>.\<close>

record gl_state =
  gl_calls :: "gl_call list"
  enabledCapabilities :: "nat \<Rightarrow> bool option"
  currentBoundFramebuffers :: "nat \<Rightarrow> nat js"
  currentProgram :: "nat option"
  colorBuffer :: color_buffer
  depthBuffer :: depth_buffer
  stencilBuffer :: stencil_buffer
  blend :: blend_state
  currentFlipSided :: "bool option"
  currentCullFace :: "nat option"
  currentScissor :: vector4
  currentViewport :: vector4

definition issue :: "gl_call \<Rightarrow> gl_state \<Rightarrow> gl_state" where
  "issue c s = s\<lparr>gl_calls := gl_calls s @ [c]\<rparr>"

definition enable :: "nat \<Rightarrow> gl_state \<Rightarrow> gl_state" where
  "enable cap s =
     (if enabledCapabilities s cap \<noteq> Some True
      then (issue (GlEnable cap) s)\<lparr>enabledCapabilities := (enabledCapabilities s)(cap \<mapsto> True)\<rparr>
      else s)"

definition disable :: "nat \<Rightarrow> gl_state \<Rightarrow> gl_state" where
  "disable cap s =
     (if enabledCapabilities s cap \<noteq> Some False
      then (issue (GlDisable cap) s)\<lparr>enabledCapabilities := (enabledCapabilities s)(cap \<mapsto> False)\<rparr>
      else s)"

definition bindFramebuffer :: "nat \<Rightarrow> nat js \<Rightarrow> gl_state \<Rightarrow> bool \<times> gl_state" where
  "bindFramebuffer target framebuffer s =
     (if currentBoundFramebuffers s target \<noteq> framebuffer then
        (let s1 = issue (GlBindFramebuffer target framebuffer) s;
             m1 = (currentBoundFramebuffers s1)(target := framebuffer);
             m2 = (if target = gl_DRAW_FRAMEBUFFER then m1(gl_FRAMEBUFFER := framebuffer) else m1);
             m3 = (if target = gl_FRAMEBUFFER then m2(gl_DRAW_FRAMEBUFFER := framebuffer) else m2)
         in (True, s1\<lparr>currentBoundFramebuffers := m3\<rparr>))
      else (False, s))"



definition color_setLocked :: "bool \<Rightarrow> gl_state \<Rightarrow> gl_state" where
  "color_setLocked lock s = s\<lparr>colorBuffer := (colorBuffer s)\<lparr>color_locked := lock\<rparr>\<rparr>"










definition stencil_setLocked :: "bool \<Rightarrow> gl_state \<Rightarrow> gl_state" where
  "stencil_setLocked lock s = s\<lparr>stencilBuffer := (stencilBuffer s)\<lparr>stencil_locked := lock\<rparr>\<rparr>"














definition setScissorTest :: "bool \<Rightarrow> gl_state \<Rightarrow> gl_state" where
  "setScissorTest scissorTest s =
     (if scissorTest then enable gl_SCISSOR_TEST s else disable gl_SCISSOR_TEST s)"

definition scissor :: "vector4 \<Rightarrow> gl_state \<Rightarrow> gl_state" where
  "scissor v s =
     (if currentScissor s \<noteq> v then (issue (GlScissor v) s)\<lparr>currentScissor := v\<rparr> else s)"

definition viewport :: "vector4 \<Rightarrow> gl_state \<Rightarrow> gl_state" where
  "viewport v s =
     (if currentViewport s \<noteq> v then (issue (GlViewport v) s)\<lparr>currentViewport := v\<rparr> else s)"

text \<open>The calls issued between two states of the tracker.\<close>

definition issued :: "gl_state \<Rightarrow> gl_state \<Rightarrow> gl_call list" where
  "issued s s' = drop (length (gl_calls s)) (gl_calls s')"

text \<open>The tracker's variables as they are declared, before the constructor's
  own first calls; the scissor box and the viewport are read from the context.\<close>

definition fresh_state :: "vector4 \<Rightarrow> vector4 \<Rightarrow> gl_state" where
  "fresh_state scissorParam viewportParam =
     \<lparr>gl_calls = [],
      enabledCapabilities = (\<lambda>_. None),
      currentBoundFramebuffers = (\<lambda>_. JsUndefined),
      currentProgram = None,
      colorBuffer = \<lparr>color_locked = False, currentColorMask = None\<rparr>,
      depthBuffer = \<lparr>depth_locked = False, currentDepthMask = None, currentDepthFunc = None,
                     currentDepthClear = None\<rparr>,
      stencilBuffer = \<lparr>stencil_locked = False, currentStencilMask = None,
                       currentStencilFunc = None, currentStencilRef = None,
                       currentStencilFuncMask = None, currentStencilFail = None,
                       currentStencilZFail = None, currentStencilZPass = None,
                       currentStencilClear = None\<rparr>,
      blend = \<lparr>currentBlendingEnabled = False, currentBlending = None,
               currentBlendEquation = JsNull, currentBlendSrc = JsNull, currentBlendDst = JsNull,
               currentBlendEquationAlpha = JsNull, currentBlendSrcAlpha = JsNull,
               currentBlendDstAlpha = JsNull, currentBlendColor = (0, 0, 0),
               currentBlendAlpha = JsVal 0, currentPremultipledAlpha = Some False\<rparr>,
      currentFlipSided = None,
      currentCullFace = None,
      currentScissor = scissorParam,
      currentViewport = viewportParam\<rparr>"

definition canvas_box :: vector4 where
  "canvas_box = \<lparr>vx = 0, vy = 0, vz = 300, vw = 150\<rparr>"

definition tracker0 :: gl_state where
  "tracker0 = fresh_state canvas_box canvas_box"


definition generic_bound_tracker :: gl_state where
  "generic_bound_tracker = snd (bindFramebuffer gl_FRAMEBUFFER (JsVal 1) tracker0)"



subsection \<open>Render target switching (WebGLRenderer)\<close>

text \<open>The methods of Vector4 that the renderer uses on the viewport and the
  scissor box: \<open>multiplyScalar\<close>, \<open>floor\<close> (\<open>Math.floor\<close> of each component) and
  \<open>round\<close> (\<open>Math.round\<close> of each component, which rounds a half upwards).
  The products are taken over the reals. They are the code's double-precision
  products wherever those are exact, as they are for the sizes and the pixel
  ratio used below (101 * 1.5 and 100 * 1.5); where a double-precision product
  is rounded, the code's value can differ from the model's by the rounding.\<close>

definition multiplyScalar :: "real \<Rightarrow> vector4 \<Rightarrow> vector4" where
  "multiplyScalar k v = \<lparr>vx = vx v * k, vy = vy v * k, vz = vz v * k, vw = vw v * k\<rparr>"

definition math_round :: "real \<Rightarrow> real" where
  "math_round a = of_int \<lfloor>a + 1 / 2\<rfloor>"

definition vector_floor :: "vector4 \<Rightarrow> vector4" where
  "vector_floor v = \<lparr>vx = of_int \<lfloor>vx v\<rfloor>, vy = of_int \<lfloor>vy v\<rfloor>,
                     vz = of_int \<lfloor>vz v\<rfloor>, vw = of_int \<lfloor>vw v\<rfloor>\<rparr>"

definition vector_round :: "vector4 \<Rightarrow> vector4" where
  "vector_round v = \<lparr>vx = math_round (vx v), vy = math_round (vy v),
                     vz = math_round (vz v), vw = math_round (vw v)\<rparr>"

definition gl_COLOR_ATTACHMENT0 :: nat where "gl_COLOR_ATTACHMENT0 = 36064"
definition gl_TEXTURE_CUBE_MAP_POSITIVE_X :: nat where "gl_TEXTURE_CUBE_MAP_POSITIVE_X = 34069"

text \<open>The value of the property \<open>__webglFramebuffer\<close> (or of
  \<open>__webglMultisampledFramebuffer\<close>): \<open>undefined\<close>, a framebuffer, or an array
  (by cube face, by mipmap level, or both).\<close>

datatype framebuffer_value =
  FbUndefined
  | FbHandle nat
  | FbArray "framebuffer_value list"

text \<open>\<open>v[i]\<close>: an element of an array, \<open>undefined\<close> beyond its end and for a
  framebuffer object; indexing \<open>undefined\<close> throws (\<open>None\<close>).\<close>

definition fb_index :: "framebuffer_value \<Rightarrow> nat \<Rightarrow> framebuffer_value option" where
  "fb_index v i =
     (case v of
        FbUndefined \<Rightarrow> None
      | FbHandle h \<Rightarrow> Some FbUndefined
      | FbArray xs \<Rightarrow> Some (if i < length xs then xs ! i else FbUndefined))"

definition isArray :: "framebuffer_value \<Rightarrow> bool" where
  "isArray v = (case v of FbArray xs \<Rightarrow> True | _ \<Rightarrow> False)"

text \<open>The argument of \<open>state.bindFramebuffer\<close>; the graphics context throws when
  it is given an array (\<open>None\<close>).\<close>

definition framebuffer_js :: "framebuffer_value \<Rightarrow> nat js option" where
  "framebuffer_js v =
     (case v of FbUndefined \<Rightarrow> Some JsUndefined | FbHandle h \<Rightarrow> Some (JsVal h)
      | FbArray xs \<Rightarrow> None)"

text \<open>A render target with the properties that the backend keeps for it.\<close>

record render_target =
  rt_viewport :: vector4
  rt_scissor :: vector4
  rt_scissorTest :: bool
  rt_useDefaultFramebuffer :: "bool option"
  rt_webglFramebuffer :: framebuffer_value
  rt_webglMultisampledFramebuffer :: framebuffer_value
  rt_hasExternalTextures :: bool
  isWebGLCubeRenderTarget :: bool
  rt_samples :: nat
  rt_texture3D :: bool
  rt_webglTexture :: "nat option"
  rt_textures_length :: nat

text \<open>The texture cache as the renderer calls it here. \<open>setupRenderTarget\<close>
  creates the framebuffers of a render target, so it returns the render target
  with its new properties.\<close>

record textures_module =
  setupRenderTarget :: "render_target \<Rightarrow> gl_state \<Rightarrow> render_target \<times> gl_state"
  rebindTextures :: "render_target \<Rightarrow> gl_state \<Rightarrow> gl_state"
  useMultisampledRTT :: "render_target \<Rightarrow> bool"

text \<open>The renderer's variables: the viewport, scissor box and scissor test that
  the application set, the pixel ratio, the values in force, and the current
  render target. \<open>r_currentScissorTest\<close> starts as \<open>null\<close>. The tracker's
  \<open>currentDrawbuffers\<close> and \<open>defaultDrawbuffers\<close> are kept here.\<close>

record renderer =
  state :: gl_state
  r_viewport :: vector4
  r_scissor :: vector4
  r_scissorTest :: bool
  r_pixelRatio :: real
  r_currentViewport :: vector4
  r_currentScissor :: vector4
  r_currentScissorTest :: "bool option"
  r_currentRenderTarget :: "render_target option"
  r_currentActiveCubeFace :: nat
  r_currentActiveMipmapLevel :: nat
  r_currentMaterialId :: int
  currentDrawbuffers :: "nat \<Rightarrow> nat list option"
  defaultDrawbuffers :: "nat list"

definition setViewport :: "vector4 \<Rightarrow> renderer \<Rightarrow> renderer" where
  "setViewport v r =
     (let cur = vector_round (multiplyScalar (r_pixelRatio r) v)
      in r\<lparr>r_viewport := v, r_currentViewport := cur, state := viewport cur (state r)\<rparr>)"

definition setScissor :: "vector4 \<Rightarrow> renderer \<Rightarrow> renderer" where
  "setScissor v r =
     (let cur = vector_round (multiplyScalar (r_pixelRatio r) v)
      in r\<lparr>r_scissor := v, r_currentScissor := cur, state := scissor cur (state r)\<rparr>)"

definition renderer_setScissorTest :: "bool \<Rightarrow> renderer \<Rightarrow> renderer" where
  "renderer_setScissorTest b r = r\<lparr>r_scissorTest := b, state := setScissorTest b (state r)\<rparr>"

text \<open>\<open>state.drawBuffers(renderTarget, framebuffer)\<close>. The WeakMap
  \<open>currentDrawbuffers\<close> has no entry for \<open>null\<close> or \<open>undefined\<close> and cannot take
  them as a key: the call then throws (\<open>None\<close>).\<close>

definition drawBuffers :: "render_target option \<Rightarrow> nat js \<Rightarrow> renderer \<Rightarrow> renderer option" where
  "drawBuffers renderTarget framebuffer r =
     (case renderTarget of
        Some rt \<Rightarrow>
          (case framebuffer of
             JsVal fb \<Rightarrow>
               (let bufs = (case currentDrawbuffers r fb of None \<Rightarrow> [] | Some l \<Rightarrow> l);
                    n = rt_textures_length rt
                in if length bufs \<noteq> n \<or> (case bufs of [] \<Rightarrow> True
                                              | b # _ \<Rightarrow> b \<noteq> gl_COLOR_ATTACHMENT0)
                   then (let bufs' = map (\<lambda>i. gl_COLOR_ATTACHMENT0 + i) [0..<n]
                         in Some (r\<lparr>currentDrawbuffers := (currentDrawbuffers r)(fb \<mapsto> bufs'),
                                    state := issue (GlDrawBuffers bufs') (state r)\<rparr>))
                   else Some (r\<lparr>currentDrawbuffers := (currentDrawbuffers r)(fb \<mapsto> bufs)\<rparr>))
           | _ \<Rightarrow> None)
      | None \<Rightarrow>
          (if (case defaultDrawbuffers r of [] \<Rightarrow> True | b # _ \<Rightarrow> b \<noteq> gl_BACK)
           then (let bufs' = (case defaultDrawbuffers r of [] \<Rightarrow> [gl_BACK]
                              | _ # rest \<Rightarrow> gl_BACK # rest)
                 in Some (r\<lparr>defaultDrawbuffers := bufs',
                            state := issue (GlDrawBuffers bufs') (state r)\<rparr>))
           else Some r))"

text \<open>The framebuffer that \<open>setRenderTarget\<close> selects for a render target;
  \<open>None\<close> when the selection throws.\<close>

definition select_framebuffer ::
  "textures_module \<Rightarrow> render_target \<Rightarrow> nat \<Rightarrow> nat \<Rightarrow> framebuffer_value option" where
  "select_framebuffer textures rt activeCubeFace activeMipmapLevel =
     (if isWebGLCubeRenderTarget rt then
        (case fb_index (rt_webglFramebuffer rt) activeCubeFace of
           None \<Rightarrow> None
         | Some face \<Rightarrow> (if isArray face then fb_index face activeMipmapLevel else Some face))
      else if rt_samples rt > 0 \<and> \<not> useMultisampledRTT textures rt
        then Some (rt_webglMultisampledFramebuffer rt)
      else if isArray (rt_webglFramebuffer rt)
        then fb_index (rt_webglFramebuffer rt) activeMipmapLevel
      else Some (rt_webglFramebuffer rt))"

text \<open>\<open>setRenderTarget\<close>, block by block. First the three-way choice made for a
  render target: whether the default framebuffer is in use, the render target
  as the texture cache leaves it, and the tracker.\<close>

definition target_setup ::
  "textures_module \<Rightarrow> render_target \<Rightarrow> gl_state \<Rightarrow> bool \<times> render_target \<times> gl_state" where
  "target_setup textures rt st =
     (if rt_useDefaultFramebuffer rt \<noteq> None
        then (False, rt, snd (bindFramebuffer gl_FRAMEBUFFER JsNull st))
      else if rt_webglFramebuffer rt = FbUndefined
        then (case setupRenderTarget textures rt st of (rt', st') \<Rightarrow> (True, rt', st'))
      else if rt_hasExternalTextures rt
        then (True, rt, rebindTextures textures rt st)
      else (True, rt, st))"

text \<open>The bind of the selected framebuffer, with \<open>state.drawBuffers\<close> when the
  bind was issued and the default framebuffer is in use.\<close>

definition bind_and_draw ::
  "bool \<Rightarrow> render_target option \<Rightarrow> nat js \<Rightarrow> renderer \<Rightarrow> renderer option" where
  "bind_and_draw useDefaultFramebuffer renderTarget framebuffer r =
     (case bindFramebuffer gl_FRAMEBUFFER framebuffer (state r) of
        (framebufferBound, st) \<Rightarrow>
          if framebufferBound \<and> useDefaultFramebuffer
          then drawBuffers renderTarget framebuffer (r\<lparr>state := st\<rparr>)
          else Some (r\<lparr>state := st\<rparr>))"

text \<open>The three calls that put the current viewport, scissor box and scissor
  test in force.\<close>

definition apply_current :: "renderer \<Rightarrow> renderer" where
  "apply_current r =
     r\<lparr>state := setScissorTest (r_currentScissorTest r = Some True)
                   (scissor (r_currentScissor r) (viewport (r_currentViewport r) (state r)))\<rparr>"

text \<open>The attachment of a cube face or of a layer of a 3D texture.\<close>

definition attach_layer :: "render_target \<Rightarrow> nat \<Rightarrow> nat \<Rightarrow> renderer \<Rightarrow> renderer" where
  "attach_layer rt activeCubeFace activeMipmapLevel r =
     (if isWebGLCubeRenderTarget rt then
        r\<lparr>state := issue (GlFramebufferTexture2D gl_FRAMEBUFFER gl_COLOR_ATTACHMENT0
                            (gl_TEXTURE_CUBE_MAP_POSITIVE_X + activeCubeFace)
                            (rt_webglTexture rt) activeMipmapLevel) (state r)\<rparr>
      else if rt_texture3D rt then
        r\<lparr>state := issue (GlFramebufferTextureLayer gl_FRAMEBUFFER gl_COLOR_ATTACHMENT0
                            (rt_webglTexture rt) activeMipmapLevel activeCubeFace) (state r)\<rparr>
      else r)"

text \<open>\<open>setRenderTarget(renderTarget, activeCubeFace, activeMipmapLevel)\<close>; \<open>None\<close>
  when a step throws.\<close>

definition setRenderTarget ::
  "textures_module \<Rightarrow> render_target option \<Rightarrow> nat \<Rightarrow> nat \<Rightarrow> renderer \<Rightarrow> renderer option" where
  "setRenderTarget textures renderTarget activeCubeFace activeMipmapLevel r0 =
     (let r = r0\<lparr>r_currentRenderTarget := renderTarget,
                 r_currentActiveCubeFace := activeCubeFace,
                 r_currentActiveMipmapLevel := activeMipmapLevel\<rparr>
      in case renderTarget of
           Some rt \<Rightarrow>
             (case target_setup textures rt (state r) of
                (useDefaultFramebuffer, rt1, st1) \<Rightarrow>
                  (case select_framebuffer textures rt1 activeCubeFace activeMipmapLevel of
                     None \<Rightarrow> None
                   | Some selected \<Rightarrow>
                       (case framebuffer_js selected of
                          None \<Rightarrow> None
                        | Some framebuffer \<Rightarrow>
                            map_option
                              (\<lambda>r3. (attach_layer rt1 activeCubeFace activeMipmapLevel
                                       (apply_current r3))\<lparr>r_currentMaterialId := - 1\<rparr>)
                              (bind_and_draw useDefaultFramebuffer (Some rt1) framebuffer
                                 (r\<lparr>state := st1,
                                    r_currentViewport := rt_viewport rt1,
                                    r_currentScissor := rt_scissor rt1,
                                    r_currentScissorTest := Some (rt_scissorTest rt1)\<rparr>)))))
         | None \<Rightarrow>
             map_option (\<lambda>r3. (apply_current r3)\<lparr>r_currentMaterialId := - 1\<rparr>)
               (bind_and_draw True None JsNull
                  (r\<lparr>r_currentViewport :=
                       vector_floor (multiplyScalar (r_pixelRatio r) (r_viewport r)),
                     r_currentScissor :=
                       vector_floor (multiplyScalar (r_pixelRatio r) (r_scissor r)),
                     r_currentScissorTest := Some (r_scissorTest r)\<rparr>)))"

text \<open>A renderer at pixel ratio 1.5 on a canvas of 101 by 100, an offscreen
  render target that has been set up, and a texture cache that is not called
  for such a target.\<close>

definition renderer0 :: renderer where
  "renderer0 =
     \<lparr>state = tracker0,
      r_viewport = \<lparr>vx = 0, vy = 0, vz = 101, vw = 100\<rparr>,
      r_scissor = \<lparr>vx = 0, vy = 0, vz = 101, vw = 100\<rparr>,
      r_scissorTest = False,
      r_pixelRatio = 3 / 2,
      r_currentViewport = \<lparr>vx = 0, vy = 0, vz = 0, vw = 1\<rparr>,
      r_currentScissor = \<lparr>vx = 0, vy = 0, vz = 0, vw = 1\<rparr>,
      r_currentScissorTest = None,
      r_currentRenderTarget = None,
      r_currentActiveCubeFace = 0,
      r_currentActiveMipmapLevel = 0,
      r_currentMaterialId = - 1,
      currentDrawbuffers = (\<lambda>_. None),
      defaultDrawbuffers = []\<rparr>"

definition offscreen :: render_target where
  "offscreen =
     \<lparr>rt_viewport = \<lparr>vx = 0, vy = 0, vz = 256, vw = 256\<rparr>,
      rt_scissor = \<lparr>vx = 0, vy = 0, vz = 256, vw = 256\<rparr>,
      rt_scissorTest = False,
      rt_useDefaultFramebuffer = None,
      rt_webglFramebuffer = FbHandle 5,
      rt_webglMultisampledFramebuffer = FbUndefined,
      rt_hasExternalTextures = False,
      isWebGLCubeRenderTarget = False,
      rt_samples = 0,
      rt_texture3D = False,
      rt_webglTexture = Some 9,
      rt_textures_length = 1\<rparr>"

definition idle_textures :: textures_module where
  "idle_textures =
     \<lparr>setupRenderTarget = (\<lambda>rt st. (rt, st)),
      rebindTextures = (\<lambda>rt st. st),
      useMultisampledRTT = (\<lambda>rt. False)\<rparr>"

definition configured :: renderer where
  "configured =
     renderer_setScissorTest True
       (setScissor \<lparr>vx = 0, vy = 0, vz = 101, vw = 100\<rparr>
          (setViewport \<lparr>vx = 0, vy = 0, vz = 101, vw = 100\<rparr> renderer0))"

definition bound_and_unbound :: "renderer option" where
  "bound_and_unbound =
     (case setRenderTarget idle_textures (Some offscreen) 0 0 configured of
        None \<Rightarrow> None
      | Some r \<Rightarrow> setRenderTarget idle_textures None 0 0 r)"

subsection \<open>Render list construction (projectObject)\<close>

unbundle bit_operations_syntax


datatype object_kind = Group | LOD | Light | Sprite | Mesh | Line | Points | Plain

text \<open>\<open>object.material\<close>: one material or an array of materials; an index
  beyond the array gives \<open>undefined\<close>.\<close>

datatype material_slot = OneMaterial material | MaterialArray "material list"

record geometry =
  geometry_handle :: nat
  groups :: "geometry_group list"

text \<open>The fields of a scene object that \<open>projectObject\<close> reads. \<open>in_frustum\<close> is
  the answer of the frustum test for the object, and \<open>projected_z\<close> the depth of
  its reference point under the projection, both computed by the mathematics
  library; \<open>object_geometry\<close> is what \<open>objects.update(object)\<close> returns.\<close>

record object_props =
  object :: object_ref
  object_visible :: bool
  layers :: "32 word"
  kind :: object_kind
  autoUpdate :: bool
  castShadow :: bool
  frustumCulled :: bool
  in_frustum :: bool
  projected_z :: real
  object_geometry :: geometry
  object_material :: material_slot



text \<open>What the traversal writes: the render list, the lights and shadow
  casters of the render state, and the z component of the shared \<open>_vector4\<close>.\<close>

record project_state =
  currentRenderList :: render_list
  lightsArray :: "nat list"
  shadowsArray :: "nat list"
  vector4_z :: real












text \<open>The objects named in the render list, the lights and the shadow casters.\<close>

definition listed :: "project_state \<Rightarrow> nat set" where
  "listed st =
     item_object ` (set (opaque (currentRenderList st))
                    \<union> set (transmissive (currentRenderList st))
                    \<union> set (transparent_list (currentRenderList st)))
     \<union> set (lightsArray st) \<union> set (shadowsArray st)"


subsection \<open>Texture cache (WebGLTextures)\<close>

text \<open>The elements that \<open>getTextureCacheKey\<close> pushes are numbers, booleans,
  strings and \<open>null\<close>. \<open>Array.prototype.join\<close> writes a number in decimal, a
  boolean as \<open>true\<close> or \<open>false\<close>, a string as it is and \<open>null\<close> as the empty
  string, with commas between the elements.\<close>

datatype key_element = KeyNumber nat | KeyBoolean bool | KeyString string | KeyNull

definition digit_char :: "nat \<Rightarrow> char" where
  "digit_char d = char_of (48 + d)"

fun decimal :: "nat \<Rightarrow> string" where
  "decimal n = (if n < 10 then [digit_char n] else decimal (n div 10) @ [digit_char (n mod 10)])"

declare decimal.simps [simp del]

fun element_string :: "key_element \<Rightarrow> string" where
  "element_string (KeyNumber n) = decimal n"
| "element_string (KeyBoolean b) = (if b then ''true'' else ''false'')"
| "element_string (KeyString s) = s"
| "element_string KeyNull = []"

fun join :: "string list \<Rightarrow> string" where
  "join [] = []"
| "join [x] = x"
| "join (x # y # ys) = x @ CHR '','' # join (y # ys)"

text \<open>The fields of a texture that the cache reads. \<open>internalFormat\<close> is a
  string or \<open>null\<close>; \<open>texture_source\<close> is the identity of \<open>texture.source\<close>.\<close>

record texture =
  texture_id :: nat
  texture_source :: nat
  wrapS :: nat
  wrapT :: nat
  wrapR :: nat
  magFilter :: nat
  minFilter :: nat
  anisotropy :: nat
  internalFormat :: "string option"
  format :: nat
  texture_type :: nat
  generateMipmaps :: bool
  premultiplyAlpha :: bool
  flipY :: bool
  unpackAlignment :: nat
  colorSpace :: string

definition key_elements :: "texture \<Rightarrow> key_element list" where
  "key_elements t =
     [KeyNumber (wrapS t), KeyNumber (wrapT t), KeyNumber (wrapR t),
      KeyNumber (magFilter t), KeyNumber (minFilter t), KeyNumber (anisotropy t),
      (case internalFormat t of None \<Rightarrow> KeyNull | Some f \<Rightarrow> KeyString f),
      KeyNumber (format t), KeyNumber (texture_type t), KeyBoolean (generateMipmaps t),
      KeyBoolean (premultiplyAlpha t), KeyBoolean (flipY t),
      KeyNumber (unpackAlignment t), KeyString (colorSpace t)]"

definition getTextureCacheKey :: "texture \<Rightarrow> string" where
  "getTextureCacheKey t = join (map element_string (key_elements t))"

text \<open>The bag that the properties store keeps for a texture, and an entry of
  a source's dictionary of GPU textures.\<close>

record texture_properties =
  webglInit :: bool
  tp_cacheKey :: "string option"
  tp_webglTexture :: "nat option"

record webgl_texture =
  wt_texture :: nat
  wt_usedTimes :: int

text \<open>The cache: the properties store, the WeakMap \<open>_sources\<close> from a source to
  its dictionary, the handles that \<open>gl.createTexture\<close> has given out, the calls
  of \<open>gl.deleteTexture\<close>, and \<open>info.memory.textures\<close>.\<close>

record textures_state =
  properties :: "nat \<Rightarrow> texture_properties"
  sources :: "nat \<Rightarrow> (string \<times> webgl_texture) list option"
  textures_created :: nat
  textures_deleted :: "nat option list"
  memory_textures :: int

definition no_properties :: texture_properties where
  "no_properties = \<lparr>webglInit = False, tp_cacheKey = None, tp_webglTexture = None\<rparr>"

definition empty_textures :: textures_state where
  "empty_textures =
     \<lparr>properties = (\<lambda>_. no_properties), sources = (\<lambda>_. None), textures_created = 0,
      textures_deleted = [], memory_textures = 0\<rparr>"

text \<open>The dictionary of a source, as a list of keys with their entries; it is
  empty when the source has none.\<close>

definition webglTextures_of :: "textures_state \<Rightarrow> nat \<Rightarrow> (string \<times> webgl_texture) list" where
  "webglTextures_of s src = (case sources s src of None \<Rightarrow> [] | Some m \<Rightarrow> m)"

text \<open>\<open>deleteTexture(texture)\<close>: the handle and the key are read from the
  texture's properties. Both callers have looked the dictionary up before.\<close>

definition deleteTexture :: "texture \<Rightarrow> textures_state \<Rightarrow> textures_state" where
  "deleteTexture t s =
     (let tp = properties s (texture_id t);
          src = texture_source t
      in s\<lparr>textures_deleted := textures_deleted s @ [tp_webglTexture tp],
            sources := (sources s)(src :=
               map_option (\<lambda>m. case tp_cacheKey tp of None \<Rightarrow> m
                                 | Some k \<Rightarrow> AList.delete k m)
                 (sources s src)),
            memory_textures := memory_textures s - 1\<rparr>)"

text \<open>\<open>initTexture(textureProperties, texture)\<close>, where \<open>textureProperties\<close> is
  the bag of the texture; the result is \<open>forceUpload\<close> and the cache.\<close>

definition initTexture :: "texture \<Rightarrow> textures_state \<Rightarrow> bool \<times> textures_state" where
  "initTexture t s0 =
     (let i = texture_id t;
          src = texture_source t;
          s1 = s0\<lparr>properties := (properties s0)(i := (properties s0 i)\<lparr>webglInit := True\<rparr>)\<rparr>;
          s2 = (if sources s1 src = None then s1\<lparr>sources := (sources s1)(src \<mapsto> [])\<rparr>
                else s1);
          textureCacheKey = getTextureCacheKey t;
          oldKey = tp_cacheKey (properties s2 i)
      in if Some textureCacheKey \<noteq> oldKey then
           (let (forceUpload, s3) =
                  (if map_of (webglTextures_of s2 src) textureCacheKey = None
                   then (True,
                         s2\<lparr>sources := (sources s2)(src \<mapsto>
                               AList.update textureCacheKey
                                 \<lparr>wt_texture = textures_created s2, wt_usedTimes = 0\<rparr>
                                 (webglTextures_of s2 src)),
                            textures_created := textures_created s2 + 1,
                            memory_textures := memory_textures s2 + 1\<rparr>)
                   else (False, s2));
                s4 = (case map_of (webglTextures_of s3 src) textureCacheKey of
                        None \<Rightarrow> s3
                      | Some e \<Rightarrow>
                          s3\<lparr>sources := (sources s3)(src \<mapsto>
                                AList.update textureCacheKey
                                  (e\<lparr>wt_usedTimes := wt_usedTimes e + 1\<rparr>)
                                  (webglTextures_of s3 src))\<rparr>);
                s5 = (case oldKey of
                        None \<Rightarrow> s4
                      | Some ok \<Rightarrow>
                          (case map_of (webglTextures_of s4 src) ok of
                             None \<Rightarrow> s4
                           | Some e \<Rightarrow>
                               (let s' = s4\<lparr>sources := (sources s4)(src \<mapsto>
                                             AList.update ok
                                               (e\<lparr>wt_usedTimes := wt_usedTimes e - 1\<rparr>)
                                               (webglTextures_of s4 src))\<rparr>
                                in if wt_usedTimes e - 1 = 0 then deleteTexture t s' else s')))
            in (forceUpload,
                s5\<lparr>properties := (properties s5)(i := (properties s5 i)
                      \<lparr>tp_cacheKey := Some textureCacheKey,
                       tp_webglTexture :=
                         map_option wt_texture
                           (map_of (webglTextures_of s5 src) textureCacheKey)\<rparr>)\<rparr>))
         else (False, s2))"

text \<open>\<open>deallocateTexture(texture)\<close>, the handler of the texture's dispose event.
  Reading \<open>usedTimes\<close> of a missing entry throws (\<open>None\<close>).\<close>

definition deallocateTexture :: "texture \<Rightarrow> textures_state \<Rightarrow> textures_state option" where
  "deallocateTexture t s =
     (let i = texture_id t;
          src = texture_source t;
          tp = properties s i
      in if \<not> webglInit tp then Some s
         else
           (case sources s src of
              None \<Rightarrow> Some (s\<lparr>properties := (properties s)(i := no_properties)\<rparr>)
            | Some m \<Rightarrow>
                (case tp_cacheKey tp of
                   None \<Rightarrow> None
                 | Some k \<Rightarrow>
                     (case map_of m k of
                        None \<Rightarrow> None
                      | Some e \<Rightarrow>
                          (let s1 = s\<lparr>sources := (sources s)(src \<mapsto>
                                        AList.update k (e\<lparr>wt_usedTimes := wt_usedTimes e - 1\<rparr>)
                                          m)\<rparr>;
                               s2 = (if wt_usedTimes e - 1 = 0 then deleteTexture t s1 else s1);
                               s3 = (if webglTextures_of s2 src = []
                                     then s2\<lparr>sources := (sources s2)(src := None)\<rparr> else s2)
                           in Some (s3\<lparr>properties := (properties s3)(i := no_properties)\<rparr>))))))"

(*DEFS*)

section \<open>Facts about the model\<close>

subsection \<open>Render list\<close>

lemma array_sort_sort_key:
  assumes "\<And>a b. (cmp a b \<le> 0) = (k a \<le> k b)"
  shows "array_sort cmp xs = sort_key k xs"
proof -
  have ins: "array_insert cmp x ys = insort_key k x ys" for x ys
    by (induction ys) (simp_all add: assms)
  have "foldr (array_insert cmp) xs [] = foldr (insort_key k) xs []"
    by (induction xs) (simp_all add: ins)
  then show ?thesis
    by (simp add: array_sort_def sort_key_def)
qed

lemma painterSortStable_key:
  "(painterSortStable a b \<le> 0) = (opaque_key a \<le> opaque_key b)"
  by (auto simp: painterSortStable_def opaque_key_def less_eq_prod_def less_prod_def)

lemma reversePainterSortStable_key:
  "(reversePainterSortStable a b \<le> 0) = (transparent_key a \<le> transparent_key b)"
  by (auto simp: reversePainterSortStable_def transparent_key_def less_eq_prod_def
      less_prod_def)

lemma sort_key_short: "length xs \<le> 1 \<Longrightarrow> sort_key k xs = xs"
  by (cases xs) (simp_all add: sort_key_def)

lemma opaque_sort_lists:
  "opaque (sort_lists None None rl) = sort_key opaque_key (opaque rl)"
  using array_sort_sort_key [of painterSortStable opaque_key, OF painterSortStable_key]
  by (simp add: sort_lists_def sort_key_short)

lemma transmissive_sort_lists:
  "transmissive (sort_lists None None rl) = sort_key transparent_key (transmissive rl)"
  using array_sort_sort_key [of reversePainterSortStable transparent_key,
      OF reversePainterSortStable_key]
  by (simp add: sort_lists_def sort_key_short)

lemma transparent_sort_lists:
  "transparent_list (sort_lists None None rl)
     = sort_key transparent_key (transparent_list rl)"
  using array_sort_sort_key [of reversePainterSortStable transparent_key,
      OF reversePainterSortStable_key]
  by (simp add: sort_lists_def sort_key_short)

lemma sort_key_idem: "sort_key k (sort_key k xs) = sort_key k xs"
  by (simp add: sort_key_id_if_sorted)

lemma sort_lists_idem:
  "sort_lists None None (sort_lists None None rl) = sort_lists None None rl"
proof -
  let ?s = "sort_lists None None rl"
  have fields: "renderItems (sort_lists None None r) = renderItems r"
    "renderItemsIndex (sort_lists None None r) = renderItemsIndex r" for r
    by (simp_all add: sort_lists_def)
  have o: "opaque (sort_lists None None ?s) = opaque ?s"
    by (simp add: opaque_sort_lists sort_key_idem)
  have t: "transmissive (sort_lists None None ?s) = transmissive ?s"
    by (simp add: transmissive_sort_lists sort_key_idem)
  have p: "transparent_list (sort_lists None None ?s) = transparent_list ?s"
    by (simp add: transparent_sort_lists sort_key_idem)
  show ?thesis
    by (rule render_list.equality) (simp_all add: fields o t p)
qed

lemma getNextRenderItem_buckets:
  "opaque (snd (getNextRenderItem ob g m go d grp rl)) = opaque rl"
  "transmissive (snd (getNextRenderItem ob g m go d grp rl)) = transmissive rl"
  "transparent_list (snd (getNextRenderItem ob g m go d grp rl)) = transparent_list rl"
  by (simp_all add: getNextRenderItem_def Let_def)

subsection \<open>Program cache\<close>


lemma indexOf_absent: "r \<notin> set xs \<Longrightarrow> indexOf xs r = - 1"
  by (induction xs) (auto simp: Let_def)


























subsection \<open>Buffer attribute cache\<close>








lemma update_data_noop:
  assumes "buffers s (attr_ref a) = Some d" "\<not> cached_version d < version a"
  shows "update_data a t s = (None, a, s)"
  using assms by (simp add: update_data_def)

lemma update_data_create:
  assumes "buffers s (attr_ref a) = None" "update_data a t s = (None, a1, s1)"
  shows "a1 = a"
    and "\<exists>d. buffers s1 = (buffers s)(attr_ref a \<mapsto> d) \<and> cached_version d = version a
            \<and> buffer d = buffers_created s \<and> cached_size d = Some (byteLength (array a))"
    and "buffer_calls s1 = buffer_calls s @
           [CreateBuffer (buffers_created s), BindBuffer t (buffers_created s),
            BufferData t (array a) (usage a), OnUploadCallback (attr_ref a)]"
    and "buffers_created s1 = buffers_created s + 1"
  using assms
  by (auto simp: update_data_def createBuffer_def Let_def gl_call_def
      split: option.splits prod.splits sum.splits)



lemma update_noop_cached:
  assumes "attributes_get attribute s = Some d"
    and "\<not> cached_version d < attribute_version attribute"
  shows "attributes_update attribute t s = (None, attribute, s)"
  using assms
  by (cases attribute)
    (simp_all add: attributes_update_def attributes_get_def attribute_version_def
      update_data_noop)

lemma update_times_noop:
  assumes "attributes_get attribute s = Some d"
    and "\<not> cached_version d < attribute_version attribute"
  shows "update_times n attribute t s = (None, attribute, s)"
  by (induction n) (simp_all add: update_noop_cached [OF assms])

lemma update_first:
  assumes "\<not> isGLBufferAttribute attribute"
    and "attributes_get attribute s = None"
    and "attributes_update attribute t s = (None, attribute1, s1)"
  shows "attribute1 = attribute"
    and "\<exists>d. attributes_get attribute s1 = Some d
            \<and> cached_version d = attribute_version attribute
            \<and> buffer d = buffers_created s"
    and "uploads s1 = uploads s + 1"
    and "buffers_created s1 = buffers_created s + 1"
proof -
  obtain a where a: "attribute = BufferAttribute a \<or> attribute = InterleavedBufferAttribute a"
    using assms(1) by (cases attribute) (auto simp: isGLBufferAttribute_def)
  obtain a1 where u: "update_data a t s = (None, a1, s1)"
    and a1: "attribute1 = (case attribute of BufferAttribute _ \<Rightarrow> BufferAttribute a1
                            | _ \<Rightarrow> InterleavedBufferAttribute a1)"
    using a assms(3) by (auto simp: attributes_update_def split: prod.splits)
  have n: "buffers s (attr_ref a) = None"
    using a assms(2) by (auto simp: attributes_get_def)
  note c = update_data_create [OF n u]
  show "attribute1 = attribute"
    using a a1 c(1) by auto
  show "\<exists>d. attributes_get attribute s1 = Some d
            \<and> cached_version d = attribute_version attribute
            \<and> buffer d = buffers_created s"
    using a c(2) by (auto simp: attributes_get_def attribute_version_def)
  show "uploads s1 = uploads s + 1"
    by (simp add: uploads_def c(3))
  show "buffers_created s1 = buffers_created s + 1"
    by (rule c(4))
qed

lemma update_data_supported:
  assumes "buffers s (attr_ref a) = None"
    and "buffer_gl_type (array_type (array a)) (isFloat16BufferAttribute a) = Some ty"
  shows "fst (update_data a t s) = None"
  using assms by (simp add: update_data_def createBuffer_def Let_def)

lemma update_data_unsupported:
  assumes "buffers s (attr_ref a) = None"
    and "buffer_gl_type (array_type (array a)) (isFloat16BufferAttribute a) = None"
  shows "update_data a t s = (Some UnsupportedBufferDataFormat, a, snd (snd (update_data a t s)))"
    and "buffers (snd (snd (update_data a t s))) = buffers s"
    and "buffer_calls (snd (snd (update_data a t s))) = buffer_calls s @
           [CreateBuffer (buffers_created s), BindBuffer t (buffers_created s),
            BufferData t (array a) (usage a), OnUploadCallback (attr_ref a)]"
    and "buffers_created (snd (snd (update_data a t s))) = buffers_created s + 1"
  using assms by (simp_all add: update_data_def createBuffer_def Let_def gl_call_def)

lemma update_supported:
  assumes "\<not> isGLBufferAttribute attribute"
    and "attributes_get attribute s = None"
    and "attribute_gl_type attribute \<noteq> None"
  shows "fst (attributes_update attribute t s) = None"
proof (cases attribute)
  case (BufferAttribute a)
  with assms(2,3) obtain ty where "buffers s (attr_ref a) = None"
    "buffer_gl_type (array_type (array a)) (isFloat16BufferAttribute a) = Some ty"
    by (auto simp: attributes_get_def attribute_gl_type_def)
  from update_data_supported [OF this, of t] show ?thesis
    by (cases "update_data a t s") (simp add: BufferAttribute attributes_update_def)
next
  case (InterleavedBufferAttribute a)
  with assms(2,3) obtain ty where "buffers s (attr_ref a) = None"
    "buffer_gl_type (array_type (array a)) (isFloat16BufferAttribute a) = Some ty"
    by (auto simp: attributes_get_def attribute_gl_type_def)
  from update_data_supported [OF this, of t] show ?thesis
    by (cases "update_data a t s") (simp add: InterleavedBufferAttribute attributes_update_def)
next
  case (GLBufferAttribute g)
  with assms(1) show ?thesis by (simp add: isGLBufferAttribute_def)
qed

lemma update_unsupported:
  assumes "\<not> isGLBufferAttribute attribute"
    and "attributes_get attribute s = None"
    and "attribute_gl_type attribute = None"
  shows "attributes_update attribute t s
           = (Some UnsupportedBufferDataFormat, attribute,
              snd (snd (attributes_update attribute t s)))"
    and "attributes_get attribute (snd (snd (attributes_update attribute t s))) = None"
    and "uploads (snd (snd (attributes_update attribute t s))) = uploads s + 1"
    and "buffers_created (snd (snd (attributes_update attribute t s))) = buffers_created s + 1"
proof -
  obtain a where a: "attribute = BufferAttribute a \<or> attribute = InterleavedBufferAttribute a"
    using assms(1) by (cases attribute) (auto simp: isGLBufferAttribute_def)
  have n: "buffers s (attr_ref a) = None"
    using a assms(2) by (auto simp: attributes_get_def)
  have g: "buffer_gl_type (array_type (array a)) (isFloat16BufferAttribute a) = None"
    using a assms(3) by (auto simp: attribute_gl_type_def)
  note u = update_data_unsupported [OF n g, of t]
  have s: "snd (snd (attributes_update attribute t s)) = snd (snd (update_data a t s))"
    using a by (auto simp: attributes_update_def split: prod.splits)
  show "attributes_update attribute t s
           = (Some UnsupportedBufferDataFormat, attribute,
              snd (snd (attributes_update attribute t s)))"
    unfolding s using a u(1) by (auto simp: attributes_update_def split: prod.splits)
  show "attributes_get attribute (snd (snd (attributes_update attribute t s))) = None"
    unfolding s using a n by (auto simp: attributes_get_def u(2))
  show "uploads (snd (snd (attributes_update attribute t s))) = uploads s + 1"
    unfolding s by (simp add: uploads_def u(3))
  show "buffers_created (snd (snd (attributes_update attribute t s))) = buffers_created s + 1"
    unfolding s by (rule u(4))
qed

lemma update_gl_attribute:
  assumes "isGLBufferAttribute attribute"
  shows "attributes_update attribute t s
           = (None, attribute, snd (snd (attributes_update attribute t s)))"
    and "buffer_calls (snd (snd (attributes_update attribute t s))) = buffer_calls s"
    and "attributes_update attribute t (snd (snd (attributes_update attribute t s)))
           = (None, attribute, snd (snd (attributes_update attribute t s)))"
  using assms
  by (cases attribute; simp add: isGLBufferAttribute_def attributes_update_def
      split: option.splits)+


subsection \<open>State tracker\<close>


























lemma issued_issue [simp]: "issued s (issue c s) = [c]"
  by (simp add: issued_def issue_def)

lemma issued_same [simp]: "issued s s = []"
  by (simp add: issued_def)























lemma gl_targets_distinct:
  "gl_DRAW_FRAMEBUFFER \<noteq> gl_FRAMEBUFFER" "gl_READ_FRAMEBUFFER \<noteq> gl_FRAMEBUFFER"
  "gl_READ_FRAMEBUFFER \<noteq> gl_DRAW_FRAMEBUFFER"
  by (simp_all add: gl_DRAW_FRAMEBUFFER_def gl_FRAMEBUFFER_def gl_READ_FRAMEBUFFER_def)


subsection \<open>Render target switching\<close>

lemma configured_fields:
  "r_currentViewport configured = \<lparr>vx = 0, vy = 0, vz = 152, vw = 150\<rparr>"
  "r_currentScissor configured = \<lparr>vx = 0, vy = 0, vz = 152, vw = 150\<rparr>"
  "r_viewport configured = \<lparr>vx = 0, vy = 0, vz = 101, vw = 100\<rparr>"
  "r_scissor configured = \<lparr>vx = 0, vy = 0, vz = 101, vw = 100\<rparr>"
  "r_scissorTest configured = True"
  "r_pixelRatio configured = 3 / 2"
  "currentViewport (state configured) = \<lparr>vx = 0, vy = 0, vz = 152, vw = 150\<rparr>"
  by (simp_all add: configured_def renderer_setScissorTest_def setScissor_def setViewport_def
      renderer0_def Let_def vector_round_def math_round_def multiplyScalar_def
      viewport_def scissor_def setScissorTest_def enable_def issue_def tracker0_def
      fresh_state_def canvas_box_def)

lemma drawBuffers_fields:
  assumes "drawBuffers tgt fb r = Some r'"
  shows "r_viewport r' = r_viewport r" and "r_scissor r' = r_scissor r"
    and "r_scissorTest r' = r_scissorTest r" and "r_pixelRatio r' = r_pixelRatio r"
    and "r_currentViewport r' = r_currentViewport r"
    and "r_currentScissor r' = r_currentScissor r"
    and "r_currentScissorTest r' = r_currentScissorTest r"
    and "r_currentRenderTarget r' = r_currentRenderTarget r"
  using assms
  by (auto simp: drawBuffers_def Let_def split: option.splits js.splits if_splits)

lemma bind_and_draw_fields:
  assumes "bind_and_draw u tgt fb r = Some r'"
  shows "r_viewport r' = r_viewport r" and "r_scissor r' = r_scissor r"
    and "r_scissorTest r' = r_scissorTest r" and "r_pixelRatio r' = r_pixelRatio r"
    and "r_currentViewport r' = r_currentViewport r"
    and "r_currentScissor r' = r_currentScissor r"
    and "r_currentScissorTest r' = r_currentScissorTest r"
    and "r_currentRenderTarget r' = r_currentRenderTarget r"
proof -
  obtain b st where bs: "bindFramebuffer gl_FRAMEBUFFER fb (state r) = (b, st)"
    by (cases "bindFramebuffer gl_FRAMEBUFFER fb (state r)")
  show "r_viewport r' = r_viewport r" and "r_scissor r' = r_scissor r"
    and "r_scissorTest r' = r_scissorTest r" and "r_pixelRatio r' = r_pixelRatio r"
    and "r_currentViewport r' = r_currentViewport r"
    and "r_currentScissor r' = r_currentScissor r"
    and "r_currentScissorTest r' = r_currentScissorTest r"
    and "r_currentRenderTarget r' = r_currentRenderTarget r"
    using assms drawBuffers_fields [of tgt fb "r\<lparr>state := st\<rparr>" r']
    by (auto simp: bind_and_draw_def bs split: if_splits)
qed

lemma bind_and_draw_default: "\<exists>r'. bind_and_draw u None fb r = Some r'"
  by (cases "bindFramebuffer gl_FRAMEBUFFER fb (state r)")
    (simp add: bind_and_draw_def drawBuffers_def Let_def)

lemma bind_and_draw_handle: "\<exists>r'. bind_and_draw u (Some rt) (JsVal h) r = Some r'"
  by (cases "bindFramebuffer gl_FRAMEBUFFER (JsVal h) (state r)")
    (simp add: bind_and_draw_def drawBuffers_def Let_def)

lemma apply_current_fields:
  "r_viewport (apply_current r) = r_viewport r"
  "r_scissor (apply_current r) = r_scissor r"
  "r_scissorTest (apply_current r) = r_scissorTest r"
  "r_pixelRatio (apply_current r) = r_pixelRatio r"
  "r_currentViewport (apply_current r) = r_currentViewport r"
  "r_currentScissor (apply_current r) = r_currentScissor r"
  "r_currentScissorTest (apply_current r) = r_currentScissorTest r"
  "r_currentRenderTarget (apply_current r) = r_currentRenderTarget r"
  "currentViewport (state (apply_current r)) = r_currentViewport r"
  "currentScissor (state (apply_current r)) = r_currentScissor r"
  by (simp_all add: apply_current_def setScissorTest_def scissor_def viewport_def enable_def
      disable_def issue_def)

lemma attach_layer_fields:
  "r_viewport (attach_layer rt f l r) = r_viewport r"
  "r_scissor (attach_layer rt f l r) = r_scissor r"
  "r_scissorTest (attach_layer rt f l r) = r_scissorTest r"
  "r_pixelRatio (attach_layer rt f l r) = r_pixelRatio r"
  by (simp_all add: attach_layer_def)

lemma setRenderTarget_null_fields:
  assumes "setRenderTarget textures None f l r = Some r'"
  shows "r_currentViewport r' = vector_floor (multiplyScalar (r_pixelRatio r) (r_viewport r))"
    and "r_currentScissor r' = vector_floor (multiplyScalar (r_pixelRatio r) (r_scissor r))"
    and "r_currentScissorTest r' = Some (r_scissorTest r)"
    and "r_currentRenderTarget r' = None"
    and "currentViewport (state r') = vector_floor (multiplyScalar (r_pixelRatio r) (r_viewport r))"
    and "currentScissor (state r') = vector_floor (multiplyScalar (r_pixelRatio r) (r_scissor r))"
proof -
  let ?r = "r\<lparr>r_currentRenderTarget := None, r_currentActiveCubeFace := f,
      r_currentActiveMipmapLevel := l,
      r_currentViewport := vector_floor (multiplyScalar (r_pixelRatio r) (r_viewport r)),
      r_currentScissor := vector_floor (multiplyScalar (r_pixelRatio r) (r_scissor r)),
      r_currentScissorTest := Some (r_scissorTest r)\<rparr>"
  from assms obtain r3 where r3: "bind_and_draw True None JsNull ?r = Some r3"
    and r': "r' = (apply_current r3)\<lparr>r_currentMaterialId := - 1\<rparr>"
    by (auto simp: setRenderTarget_def Let_def)
  note b = bind_and_draw_fields [OF r3]
  show "r_currentViewport r' = vector_floor (multiplyScalar (r_pixelRatio r) (r_viewport r))"
    and "r_currentScissor r' = vector_floor (multiplyScalar (r_pixelRatio r) (r_scissor r))"
    and "r_currentScissorTest r' = Some (r_scissorTest r)"
    and "r_currentRenderTarget r' = None"
    and "currentViewport (state r') = vector_floor (multiplyScalar (r_pixelRatio r) (r_viewport r))"
    and "currentScissor (state r') = vector_floor (multiplyScalar (r_pixelRatio r) (r_scissor r))"
    by (simp_all add: r' apply_current_fields b)
qed

lemma setRenderTarget_keeps:
  assumes "setRenderTarget textures rt f l r = Some r'"
  shows "r_viewport r' = r_viewport r" and "r_scissor r' = r_scissor r"
    and "r_scissorTest r' = r_scissorTest r" and "r_pixelRatio r' = r_pixelRatio r"
proof -
  have "r_viewport r' = r_viewport r \<and> r_scissor r' = r_scissor r
      \<and> r_scissorTest r' = r_scissorTest r \<and> r_pixelRatio r' = r_pixelRatio r"
  proof (cases rt)
    case None
    with assms obtain r0 r3 where r3: "bind_and_draw True None JsNull r0 = Some r3"
      and r0: "r_viewport r0 = r_viewport r" "r_scissor r0 = r_scissor r"
        "r_scissorTest r0 = r_scissorTest r" "r_pixelRatio r0 = r_pixelRatio r"
      and r': "r' = (apply_current r3)\<lparr>r_currentMaterialId := - 1\<rparr>"
      by (auto simp: setRenderTarget_def Let_def)
    show ?thesis
      by (simp add: r' apply_current_fields bind_and_draw_fields [OF r3] r0)
  next
    case (Some t)
    with assms obtain u t1 fb r0 r3 where r3: "bind_and_draw u (Some t1) fb r0 = Some r3"
      and r0: "r_viewport r0 = r_viewport r" "r_scissor r0 = r_scissor r"
        "r_scissorTest r0 = r_scissorTest r" "r_pixelRatio r0 = r_pixelRatio r"
      and r': "r' = (attach_layer t1 f l (apply_current r3))\<lparr>r_currentMaterialId := - 1\<rparr>"
      by (auto simp: setRenderTarget_def Let_def split: prod.splits option.splits)
    show ?thesis
      by (simp add: r' attach_layer_fields apply_current_fields bind_and_draw_fields [OF r3] r0)
  qed
  then show "r_viewport r' = r_viewport r" and "r_scissor r' = r_scissor r"
    and "r_scissorTest r' = r_scissorTest r" and "r_pixelRatio r' = r_pixelRatio r"
    by simp_all
qed

lemma setRenderTarget_offscreen:
  "\<exists>r'. setRenderTarget idle_textures (Some offscreen) 0 0 r = Some r'"
proof -
  have t: "target_setup idle_textures offscreen st = (True, offscreen, st)" for st
    by (simp add: target_setup_def offscreen_def)
  have s: "select_framebuffer idle_textures offscreen 0 0 = Some (FbHandle 5)"
    by (simp add: select_framebuffer_def offscreen_def isArray_def)
  have j: "framebuffer_js (FbHandle 5) = Some (JsVal 5)"
    by (simp add: framebuffer_js_def)
  show ?thesis
    using bind_and_draw_handle
    by (simp add: setRenderTarget_def Let_def t s j)
qed

lemma setRenderTarget_null:
  "\<exists>r'. setRenderTarget textures None f l r = Some r'"
  using bind_and_draw_default by (simp add: setRenderTarget_def Let_def)

subsection \<open>Render list construction\<close>


lemma listed_vector4_z [simp]: "listed (st\<lparr>vector4_z := a\<rparr>) = listed st"
  by (simp add: listed_def)




section \<open>Claims\<close>

text \<open>
  C9. A pushed render item is classified by its material alone: into the
  transmissive bucket when \<open>material.transmission > 0\<close> (also when the material
  is transparent as well), otherwise into the transparent bucket when
  \<open>material.transparent\<close> is true, otherwise into the opaque bucket. The item
  carries the pushed material, and exactly one bucket grows, by that one item.
\<close>

theorem push_classification:
  fixes rl :: render_list and ob :: object_ref and g :: nat and m :: material
    and go d :: real and grp :: "geometry_group option"
  defines "it \<equiv> fst (getNextRenderItem ob g m go d grp rl)"
  defines "rl' \<equiv> push ob g m go d grp rl"
  shows "item_material it = m \<and> item_id it = object_id ob
    \<and> (transmission_positive m \<longrightarrow>
          transmissive rl' = transmissive rl @ [it]
          \<and> transparent_list rl' = transparent_list rl \<and> opaque rl' = opaque rl)
    \<and> (\<not> transmission_positive m \<and> transparent m \<longrightarrow>
          transparent_list rl' = transparent_list rl @ [it]
          \<and> transmissive rl' = transmissive rl \<and> opaque rl' = opaque rl)
    \<and> (\<not> transmission_positive m \<and> \<not> transparent m \<longrightarrow>
          opaque rl' = opaque rl @ [it]
          \<and> transmissive rl' = transmissive rl \<and> transparent_list rl' = transparent_list rl)
    \<and> length (opaque rl') + length (transmissive rl') + length (transparent_list rl')
        = length (opaque rl) + length (transmissive rl) + length (transparent_list rl) + 1"
  unfolding it_def rl'_def
  by (simp add: push_def getNextRenderItem_def Let_def)

theorem push_classification_witness:
  "transmission_positive glass \<and> transparent glass
   \<and> map item_id (transmissive (push cube 0 glass 0 0 None empty_render_list)) = [12]
   \<and> transparent_list (push cube 0 glass 0 0 None empty_render_list) = []
   \<and> opaque (push cube 0 glass 0 0 None empty_render_list) = []"
  using push_classification [of cube 0 glass 0 0 None empty_render_list]
  by (simp add: glass_def cube_def empty_render_list_def transmission_positive_def
      getNextRenderItem_def Let_def)

text \<open>
  C3. The default sort leaves the opaque bucket ordered by groupOrder, then
  renderOrder, then material id, then depth z, then item id, all ascending, and
  the transmissive and transparent buckets ordered by groupOrder, then
  renderOrder, then depth z descending, then item id ascending. Each bucket keeps
  its items, items with the same key keep their order, and sorting again changes
  nothing. Three opaque items with groupOrder 0, 0, 1 and renderOrder 2, 1, 0
  come out as second, first, third.
\<close>

theorem default_sort_order:
  fixes rl :: render_list and a b c :: render_item
  defines "rl' \<equiv> sort_lists None None rl"
  defines "a' \<equiv> a\<lparr>groupOrder := 0, renderOrder := 2\<rparr>"
  defines "b' \<equiv> b\<lparr>groupOrder := 0, renderOrder := 1\<rparr>"
  defines "c' \<equiv> c\<lparr>groupOrder := 1, renderOrder := 0\<rparr>"
  shows "sorted (map opaque_key (opaque rl'))
    \<and> sorted (map transparent_key (transmissive rl'))
    \<and> sorted (map transparent_key (transparent_list rl'))
    \<and> mset (opaque rl') = mset (opaque rl)
    \<and> mset (transmissive rl') = mset (transmissive rl)
    \<and> mset (transparent_list rl') = mset (transparent_list rl)
    \<and> filter (\<lambda>y. opaque_key y = k) (opaque rl') = filter (\<lambda>y. opaque_key y = k) (opaque rl)
    \<and> filter (\<lambda>y. transparent_key y = k') (transmissive rl')
        = filter (\<lambda>y. transparent_key y = k') (transmissive rl)
    \<and> filter (\<lambda>y. transparent_key y = k') (transparent_list rl')
        = filter (\<lambda>y. transparent_key y = k') (transparent_list rl)
    \<and> sort_lists None None rl' = rl'
    \<and> opaque (sort_lists None None (rl\<lparr>opaque := [a', b', c']\<rparr>)) = [b', a', c']"
proof -
  have scenario: "opaque (sort_lists None None (rl\<lparr>opaque := [a', b', c']\<rparr>)) = [b', a', c']"
    by (simp add: sort_lists_def array_sort_def painterSortStable_def a'_def b'_def c'_def)
  have ordered: "sorted (map opaque_key (opaque rl'))"
    "sorted (map transparent_key (transmissive rl'))"
    "sorted (map transparent_key (transparent_list rl'))"
    unfolding rl'_def
    by (simp_all only: opaque_sort_lists transmissive_sort_lists transparent_sort_lists
        sorted_sort_key)
  have same_items: "mset (opaque rl') = mset (opaque rl)"
    "mset (transmissive rl') = mset (transmissive rl)"
    "mset (transparent_list rl') = mset (transparent_list rl)"
    unfolding rl'_def
    by (simp_all only: opaque_sort_lists transmissive_sort_lists transparent_sort_lists
        mset_sort)
  have stable:
    "filter (\<lambda>y. opaque_key y = k) (opaque rl') = filter (\<lambda>y. opaque_key y = k) (opaque rl)"
    "filter (\<lambda>y. transparent_key y = k') (transmissive rl')
        = filter (\<lambda>y. transparent_key y = k') (transmissive rl)"
    "filter (\<lambda>y. transparent_key y = k') (transparent_list rl')
        = filter (\<lambda>y. transparent_key y = k') (transparent_list rl)"
    unfolding rl'_def
    by (simp_all only: opaque_sort_lists transmissive_sort_lists transparent_sort_lists
        sort_key_stable)
  have again: "sort_lists None None rl' = rl'"
    unfolding rl'_def by (rule sort_lists_idem)
  from ordered same_items stable again scenario show ?thesis
    by (intro conjI)
qed








text \<open>
  C5, as the code has it. Take an attribute that is not a GLBufferAttribute
  and is not yet cached. If the class of its array is one that createBuffer
  knows, the first update creates the buffer, makes exactly one upload, stores
  the record and returns, and every later update of the attribute at the same
  version returns without a call and leaves the cache as it is: after N calls,
  N at least one, the number of uploads is one more than before the first. If
  the class of its array is not one that createBuffer knows, update creates a
  buffer, makes one upload, throws and stores nothing, so the attribute is
  still not cached and the next update does the same again. For a
  GLBufferAttribute update makes no call at all, and a second update changes
  nothing.
\<close>

theorem update_idempotent:
  fixes attribute :: attribute and t n :: nat and s :: attributes_state
  defines "s1 \<equiv> snd (snd (attributes_update attribute t s))"
  shows "(\<not> isGLBufferAttribute attribute \<and> attributes_get attribute s = None
            \<and> attribute_gl_type attribute \<noteq> None \<longrightarrow>
            attributes_update attribute t s = (None, attribute, s1)
          \<and> uploads s1 = uploads s + 1
          \<and> buffers_created s1 = buffers_created s + 1
          \<and> attributes_get attribute s1 \<noteq> None
          \<and> attributes_update attribute t s1 = (None, attribute, s1)
          \<and> update_times n attribute t s1 = (None, attribute, s1)
          \<and> update_times (Suc n) attribute t s = (None, attribute, s1)
          \<and> uploads (snd (snd (update_times (Suc n) attribute t s))) = uploads s + 1)
    \<and> (\<not> isGLBufferAttribute attribute \<and> attributes_get attribute s = None
            \<and> attribute_gl_type attribute = None \<longrightarrow>
            attributes_update attribute t s = (Some UnsupportedBufferDataFormat, attribute, s1)
          \<and> uploads s1 = uploads s + 1
          \<and> buffers_created s1 = buffers_created s + 1
          \<and> attributes_get attribute s1 = None
          \<and> update_times (Suc n) attribute t s
              = (Some UnsupportedBufferDataFormat, attribute, s1))
    \<and> (isGLBufferAttribute attribute \<longrightarrow>
            attributes_update attribute t s = (None, attribute, s1)
          \<and> buffer_calls s1 = buffer_calls s
          \<and> attributes_update attribute t s1 = (None, attribute, s1))"
proof -
  have supported: "\<not> isGLBufferAttribute attribute \<and> attributes_get attribute s = None
            \<and> attribute_gl_type attribute \<noteq> None \<longrightarrow>
            attributes_update attribute t s = (None, attribute, s1)
          \<and> uploads s1 = uploads s + 1
          \<and> buffers_created s1 = buffers_created s + 1
          \<and> attributes_get attribute s1 \<noteq> None
          \<and> attributes_update attribute t s1 = (None, attribute, s1)
          \<and> update_times n attribute t s1 = (None, attribute, s1)
          \<and> update_times (Suc n) attribute t s = (None, attribute, s1)
          \<and> uploads (snd (snd (update_times (Suc n) attribute t s))) = uploads s + 1"
  proof (rule impI, elim conjE)
    assume h: "\<not> isGLBufferAttribute attribute" "attributes_get attribute s = None"
      "attribute_gl_type attribute \<noteq> None"
    have "fst (attributes_update attribute t s) = None"
      by (rule update_supported [OF h])
    then obtain attribute1 where u: "attributes_update attribute t s = (None, attribute1, s1)"
      unfolding s1_def by (cases "attributes_update attribute t s") auto
    note f = update_first [OF h(1,2) u]
    from f(2) obtain d where d: "attributes_get attribute s1 = Some d"
      "\<not> cached_version d < attribute_version attribute"
      by auto
    have again: "attributes_update attribute t s1 = (None, attribute, s1)"
      by (rule update_noop_cached [OF d])
    have times: "update_times n attribute t s1 = (None, attribute, s1)"
      by (rule update_times_noop [OF d])
    have all: "update_times (Suc n) attribute t s = (None, attribute, s1)"
      using u f(1) times by simp
    from u f(1,3,4) d(1) again times all
    show "attributes_update attribute t s = (None, attribute, s1)
          \<and> uploads s1 = uploads s + 1
          \<and> buffers_created s1 = buffers_created s + 1
          \<and> attributes_get attribute s1 \<noteq> None
          \<and> attributes_update attribute t s1 = (None, attribute, s1)
          \<and> update_times n attribute t s1 = (None, attribute, s1)
          \<and> update_times (Suc n) attribute t s = (None, attribute, s1)
          \<and> uploads (snd (snd (update_times (Suc n) attribute t s))) = uploads s + 1"
      by simp
  qed
  have unsupported: "\<not> isGLBufferAttribute attribute \<and> attributes_get attribute s = None
            \<and> attribute_gl_type attribute = None \<longrightarrow>
            attributes_update attribute t s = (Some UnsupportedBufferDataFormat, attribute, s1)
          \<and> uploads s1 = uploads s + 1
          \<and> buffers_created s1 = buffers_created s + 1
          \<and> attributes_get attribute s1 = None
          \<and> update_times (Suc n) attribute t s
              = (Some UnsupportedBufferDataFormat, attribute, s1)"
  proof (rule impI, elim conjE)
    assume h: "\<not> isGLBufferAttribute attribute" "attributes_get attribute s = None"
      "attribute_gl_type attribute = None"
    note u = update_unsupported [OF h, of t, folded s1_def]
    have "update_times (Suc n) attribute t s
              = (Some UnsupportedBufferDataFormat, attribute, s1)"
      using u(1) by simp
    with u show "attributes_update attribute t s
            = (Some UnsupportedBufferDataFormat, attribute, s1)
          \<and> uploads s1 = uploads s + 1
          \<and> buffers_created s1 = buffers_created s + 1
          \<and> attributes_get attribute s1 = None
          \<and> update_times (Suc n) attribute t s
              = (Some UnsupportedBufferDataFormat, attribute, s1)"
      by simp
  qed
  have gl: "isGLBufferAttribute attribute \<longrightarrow>
            attributes_update attribute t s = (None, attribute, s1)
          \<and> buffer_calls s1 = buffer_calls s
          \<and> attributes_update attribute t s1 = (None, attribute, s1)"
  proof (rule impI)
    assume h: "isGLBufferAttribute attribute"
    note u = update_gl_attribute [OF h, of t s, folded s1_def]
    from u show "attributes_update attribute t s = (None, attribute, s1)
          \<and> buffer_calls s1 = buffer_calls s
          \<and> attributes_update attribute t s1 = (None, attribute, s1)"
      by simp
  qed
  from supported unsupported gl show ?thesis by (intro conjI)
qed

theorem update_idempotent_witness:
  "\<not> isGLBufferAttribute (BufferAttribute positions)
   \<and> attributes_get (BufferAttribute positions) empty_attributes = None
   \<and> attribute_gl_type (BufferAttribute positions) \<noteq> None
   \<and> attributes_update (BufferAttribute positions) 34962 empty_attributes
       = (None, BufferAttribute positions, positions_uploaded)
   \<and> uploads positions_uploaded = 1
   \<and> update_times 5 (BufferAttribute positions) 34962 empty_attributes
       = (None, BufferAttribute positions, positions_uploaded)
   \<and> uploads (snd (snd (update_times 5 (BufferAttribute positions) 34962 empty_attributes)))
       = 1
   \<and> attribute_gl_type (InterleavedBufferAttribute doubles) = None
   \<and> fst (attributes_update (InterleavedBufferAttribute doubles) 34962 empty_attributes)
       = Some UnsupportedBufferDataFormat"
proof -
  have g: "\<not> isGLBufferAttribute (BufferAttribute positions)"
    "attributes_get (BufferAttribute positions) empty_attributes = None"
    "attribute_gl_type (BufferAttribute positions) \<noteq> None"
    "\<not> isGLBufferAttribute (InterleavedBufferAttribute doubles)"
    "attributes_get (InterleavedBufferAttribute doubles) empty_attributes = None"
    "attribute_gl_type (InterleavedBufferAttribute doubles) = None"
    by (simp_all add: attributes_get_def empty_attributes_def isGLBufferAttribute_def
        attribute_gl_type_def positions_def doubles_def)
  have e: "uploads empty_attributes = 0"
    by (simp add: uploads_def empty_attributes_def)
  note a = update_idempotent [where attribute = "BufferAttribute positions"
      and s = empty_attributes and t = 34962 and n = 4]
  note b = update_idempotent [where attribute = "InterleavedBufferAttribute doubles"
      and s = empty_attributes and t = 34962 and n = 0]
  have "attributes_update (BufferAttribute positions) 34962 empty_attributes
       = (None, BufferAttribute positions, positions_uploaded)
   \<and> uploads positions_uploaded = 1
   \<and> update_times 5 (BufferAttribute positions) 34962 empty_attributes
       = (None, BufferAttribute positions, positions_uploaded)
   \<and> uploads (snd (snd (update_times 5 (BufferAttribute positions) 34962 empty_attributes)))
       = 1"
    using a g(1,2,3) e unfolding positions_uploaded_def [symmetric]
    by simp
  moreover have "fst (attributes_update (InterleavedBufferAttribute doubles) 34962
      empty_attributes) = Some UnsupportedBufferDataFormat"
  proof -
    have "attributes_update (InterleavedBufferAttribute doubles) 34962 empty_attributes
      = (Some UnsupportedBufferDataFormat, InterleavedBufferAttribute doubles,
         snd (snd (attributes_update (InterleavedBufferAttribute doubles) 34962
           empty_attributes)))"
      using b g(4,5,6) by simp
    then show ?thesis by (metis fst_conv)
  qed
  ultimately show ?thesis using g by simp
qed

text \<open>
  C5 as stated fails for an attribute over a Float64Array: the first update
  creates a buffer and uploads the data, and so does the second update at the
  same version; both throw, and the cache holds no record after either. Two
  calls make two uploads and create two buffers.
\<close>

theorem update_unsupported_counterexample:
  "attributes_update (BufferAttribute doubles) 34962 empty_attributes
     = (Some UnsupportedBufferDataFormat, BufferAttribute doubles, doubles_once)
   \<and> buffer_calls doubles_once
       = [CreateBuffer 0, BindBuffer 34962 0, BufferData 34962 (array doubles) 35044,
          OnUploadCallback 2]
   \<and> attributes_get (BufferAttribute doubles) doubles_once = None
   \<and> attributes_update (BufferAttribute doubles) 34962 doubles_once
       = (Some UnsupportedBufferDataFormat, BufferAttribute doubles, doubles_twice)
   \<and> buffer_calls doubles_twice
       = [CreateBuffer 0, BindBuffer 34962 0, BufferData 34962 (array doubles) 35044,
          OnUploadCallback 2,
          CreateBuffer 1, BindBuffer 34962 1, BufferData 34962 (array doubles) 35044,
          OnUploadCallback 2]
   \<and> attributes_get (BufferAttribute doubles) doubles_twice = None
   \<and> uploads doubles_once = 1
   \<and> uploads doubles_twice = 2"
proof -
  have o: "doubles_once = \<lparr>buffers = (\<lambda>_. None),
      buffer_calls = [CreateBuffer 0, BindBuffer 34962 0,
        BufferData 34962 (array doubles) 35044, OnUploadCallback 2],
      buffers_created = 1\<rparr>"
    by (simp add: doubles_once_def attributes_update_def update_data_def createBuffer_def
        Let_def gl_call_def empty_attributes_def doubles_def)
  have t: "doubles_twice = \<lparr>buffers = (\<lambda>_. None),
      buffer_calls = [CreateBuffer 0, BindBuffer 34962 0,
        BufferData 34962 (array doubles) 35044, OnUploadCallback 2,
        CreateBuffer 1, BindBuffer 34962 1, BufferData 34962 (array doubles) 35044,
        OnUploadCallback 2],
      buffers_created = 2\<rparr>"
    unfolding doubles_twice_def o
    by (simp add: attributes_update_def update_data_def createBuffer_def
        Let_def gl_call_def doubles_def)
  have a: "attributes_update (BufferAttribute doubles) 34962 empty_attributes
     = (Some UnsupportedBufferDataFormat, BufferAttribute doubles, doubles_once)"
    unfolding o
    by (simp add: attributes_update_def update_data_def createBuffer_def
        Let_def gl_call_def empty_attributes_def doubles_def)
  have b: "attributes_update (BufferAttribute doubles) 34962 doubles_once
       = (Some UnsupportedBufferDataFormat, BufferAttribute doubles, doubles_twice)"
    unfolding o t
    by (simp add: attributes_update_def update_data_def createBuffer_def
        Let_def gl_call_def doubles_def)
  have c: "attributes_get (BufferAttribute doubles) doubles_once = None"
    "attributes_get (BufferAttribute doubles) doubles_twice = None"
    "uploads doubles_once = 1" "uploads doubles_twice = 2"
    "buffer_calls doubles_once
       = [CreateBuffer 0, BindBuffer 34962 0, BufferData 34962 (array doubles) 35044,
          OnUploadCallback 2]"
    "buffer_calls doubles_twice
       = [CreateBuffer 0, BindBuffer 34962 0, BufferData 34962 (array doubles) 35044,
          OnUploadCallback 2,
          CreateBuffer 1, BindBuffer 34962 1, BufferData 34962 (array doubles) 35044,
          OnUploadCallback 2]"
    by (simp_all add: o t attributes_get_def uploads_def)
  from a b c show ?thesis by simp
qed






text \<open>
  C7, as the code has it. bindFramebuffer keeps the snapshot entries of the
  draw target and of the generic target equal: a bind under either stores the
  framebuffer under both, so that a following bind of the same framebuffer
  under either of the two is suppressed. The entry of the read target is
  written only by a bind under the read target, and a bind under the read
  target writes no other entry. For every target the function returns true
  exactly when it issued the bind call, and it returns false exactly when it
  left the tracker unchanged.
\<close>

theorem bindFramebuffer_aliasing:
  fixes s :: gl_state and t t' tt x :: nat and fb fb' :: "nat js"
  assumes "currentBoundFramebuffers s gl_DRAW_FRAMEBUFFER
             = currentBoundFramebuffers s gl_FRAMEBUFFER"
    and "t = gl_DRAW_FRAMEBUFFER \<or> t = gl_FRAMEBUFFER"
    and "t' = gl_DRAW_FRAMEBUFFER \<or> t' = gl_FRAMEBUFFER"
  defines "s1 \<equiv> snd (bindFramebuffer t fb s)"
  defines "s2 \<equiv> snd (bindFramebuffer tt fb' s)"
  shows "currentBoundFramebuffers s1 gl_DRAW_FRAMEBUFFER = fb
    \<and> currentBoundFramebuffers s1 gl_FRAMEBUFFER = fb
    \<and> currentBoundFramebuffers s1 gl_READ_FRAMEBUFFER
        = currentBoundFramebuffers s gl_READ_FRAMEBUFFER
    \<and> bindFramebuffer t' fb s1 = (False, s1)
    \<and> currentBoundFramebuffers s2 gl_DRAW_FRAMEBUFFER
        = currentBoundFramebuffers s2 gl_FRAMEBUFFER
    \<and> (tt = gl_READ_FRAMEBUFFER \<and> x \<noteq> gl_READ_FRAMEBUFFER \<longrightarrow>
          currentBoundFramebuffers s2 x = currentBoundFramebuffers s x)
    \<and> (fst (bindFramebuffer tt fb' s) \<longrightarrow> issued s s2 = [GlBindFramebuffer tt fb'])
    \<and> (\<not> fst (bindFramebuffer tt fb' s) \<longrightarrow> s2 = s)
    \<and> fst (bindFramebuffer tt fb' s) = (currentBoundFramebuffers s tt \<noteq> fb')"
proof -
  note d = gl_targets_distinct
  have a: "currentBoundFramebuffers s1 gl_DRAW_FRAMEBUFFER = fb
    \<and> currentBoundFramebuffers s1 gl_FRAMEBUFFER = fb
    \<and> currentBoundFramebuffers s1 gl_READ_FRAMEBUFFER
        = currentBoundFramebuffers s gl_READ_FRAMEBUFFER"
    using assms(1,2) d unfolding s1_def
    by (auto simp: bindFramebuffer_def Let_def issue_def)
  then have b: "bindFramebuffer t' fb s1 = (False, s1)"
    using assms(3) by (auto simp: bindFramebuffer_def)
  have c: "currentBoundFramebuffers s2 gl_DRAW_FRAMEBUFFER
        = currentBoundFramebuffers s2 gl_FRAMEBUFFER"
    using assms(1) d unfolding s2_def
    by (auto simp: bindFramebuffer_def Let_def issue_def)
  have e: "tt = gl_READ_FRAMEBUFFER \<and> x \<noteq> gl_READ_FRAMEBUFFER \<longrightarrow>
          currentBoundFramebuffers s2 x = currentBoundFramebuffers s x"
    using d unfolding s2_def
    by (auto simp: bindFramebuffer_def Let_def issue_def)
  have f: "(fst (bindFramebuffer tt fb' s) \<longrightarrow> issued s s2 = [GlBindFramebuffer tt fb'])
    \<and> (\<not> fst (bindFramebuffer tt fb' s) \<longrightarrow> s2 = s)
    \<and> fst (bindFramebuffer tt fb' s) = (currentBoundFramebuffers s tt \<noteq> fb')"
    unfolding s2_def
    by (simp add: bindFramebuffer_def Let_def issue_def issued_def)
  from a b c e f show ?thesis by (elim conjE) (intro conjI; assumption)
qed

theorem bindFramebuffer_aliasing_witness:
  "currentBoundFramebuffers tracker0 gl_DRAW_FRAMEBUFFER
     = currentBoundFramebuffers tracker0 gl_FRAMEBUFFER
   \<and> currentBoundFramebuffers generic_bound_tracker gl_DRAW_FRAMEBUFFER = JsVal 1
   \<and> bindFramebuffer gl_DRAW_FRAMEBUFFER (JsVal 1) generic_bound_tracker
       = (False, generic_bound_tracker)
   \<and> fst (bindFramebuffer gl_FRAMEBUFFER (JsVal 1) tracker0)"
proof -
  have h: "currentBoundFramebuffers tracker0 gl_DRAW_FRAMEBUFFER
     = currentBoundFramebuffers tracker0 gl_FRAMEBUFFER"
    "currentBoundFramebuffers tracker0 gl_FRAMEBUFFER \<noteq> JsVal 1"
    by (simp_all add: tracker0_def fresh_state_def)
  from bindFramebuffer_aliasing [where s = tracker0 and t = gl_FRAMEBUFFER
      and t' = gl_DRAW_FRAMEBUFFER and tt = gl_FRAMEBUFFER and fb = "JsVal 1" and fb' = "JsVal 1",
      OF h(1)]
  show ?thesis using h by (simp add: generic_bound_tracker_def)
qed

text \<open>
  C7 as stated fails for the read target: after a bind under the generic
  target the snapshot still has no entry for the read target, and a bind of
  the same framebuffer under the read target is issued, not suppressed.
\<close>

theorem bindFramebuffer_read_counterexample:
  "currentBoundFramebuffers generic_bound_tracker gl_READ_FRAMEBUFFER = JsUndefined
   \<and> fst (bindFramebuffer gl_READ_FRAMEBUFFER (JsVal 1) generic_bound_tracker)
   \<and> issued generic_bound_tracker
        (snd (bindFramebuffer gl_READ_FRAMEBUFFER (JsVal 1) generic_bound_tracker))
       = [GlBindFramebuffer gl_READ_FRAMEBUFFER (JsVal 1)]"
  by (simp add: generic_bound_tracker_def tracker0_def fresh_state_def bindFramebuffer_def
      Let_def issue_def issued_def gl_targets_distinct)


text \<open>
  C8 at pixel ratio 1.5 with a viewport and scissor box 101 wide: setViewport
  and setScissor put the width round(151.5) = 152 in force; binding a render
  target and then binding null puts floor(151.5) = 151 in force, in the
  renderer and in the tracker, so the values in force before the render target
  was bound are not restored. The scissor test is restored.
\<close>

theorem render_target_restore_rounding:
  "r_currentViewport configured = \<lparr>vx = 0, vy = 0, vz = 152, vw = 150\<rparr>
   \<and> r_currentScissor configured = \<lparr>vx = 0, vy = 0, vz = 152, vw = 150\<rparr>
   \<and> map_option r_currentViewport bound_and_unbound
       = Some \<lparr>vx = 0, vy = 0, vz = 151, vw = 150\<rparr>
   \<and> map_option r_currentScissor bound_and_unbound
       = Some \<lparr>vx = 0, vy = 0, vz = 151, vw = 150\<rparr>
   \<and> map_option (\<lambda>r. currentViewport (state r)) bound_and_unbound
       = Some \<lparr>vx = 0, vy = 0, vz = 151, vw = 150\<rparr>
   \<and> map_option r_currentScissorTest bound_and_unbound = Some (Some True)
   \<and> map_option r_currentRenderTarget bound_and_unbound = Some None"
proof -
  obtain r1 where r1: "setRenderTarget idle_textures (Some offscreen) 0 0 configured = Some r1"
    using setRenderTarget_offscreen by blast
  obtain r2 where r2: "setRenderTarget idle_textures None 0 0 r1 = Some r2"
    using setRenderTarget_null by blast
  have b: "bound_and_unbound = Some r2"
    by (simp add: bound_and_unbound_def r1 r2)
  note k = setRenderTarget_keeps [OF r1]
  note n = setRenderTarget_null_fields [OF r2]
  have fl: "vector_floor (multiplyScalar (3 / 2) \<lparr>vx = 0, vy = 0, vz = 101, vw = 100\<rparr>)
      = \<lparr>vx = 0, vy = 0, vz = 151, vw = 150\<rparr>"
    by (simp add: vector_floor_def multiplyScalar_def)
  show ?thesis
    by (simp add: b n k configured_fields fl)
qed




end
